theory Spec2Isabelle
  imports Complex_Main "HOL-Library.Word"
begin

section \<open>JavaScript values and strings\<close>

text \<open>
  A JavaScript string is modelled as a \<^typ>\<open>string\<close>: the list of its code units, for
  strings whose code units are all below 256. On these, \<open>toLowerCase\<close> maps \<open>A\<close>-\<open>Z\<close> and
  the upper-case letters of the Latin-1 block to their lower-case forms, and \<open>trim\<close> strips
  the code units 9-13, 32 and 160.
\<close>

definition upper_case_letters :: string where
  "upper_case_letters =
     ''ABCDEFGHIJKLMNOPQRSTUVWXYZ'' @
       [
        CHR 0xC0, CHR 0xC1, CHR 0xC2, CHR 0xC3, CHR 0xC4, CHR 0xC5, CHR 0xC6, CHR 0xC7,
        CHR 0xC8, CHR 0xC9, CHR 0xCA, CHR 0xCB, CHR 0xCC, CHR 0xCD, CHR 0xCE, CHR 0xCF,
        CHR 0xD0, CHR 0xD1, CHR 0xD2, CHR 0xD3, CHR 0xD4, CHR 0xD5, CHR 0xD6, CHR 0xD8,
        CHR 0xD9, CHR 0xDA, CHR 0xDB, CHR 0xDC, CHR 0xDD, CHR 0xDE]"

definition lower_case_letters :: string where
  "lower_case_letters =
     ''abcdefghijklmnopqrstuvwxyz'' @
       [
        CHR 0xE0, CHR 0xE1, CHR 0xE2, CHR 0xE3, CHR 0xE4, CHR 0xE5, CHR 0xE6, CHR 0xE7,
        CHR 0xE8, CHR 0xE9, CHR 0xEA, CHR 0xEB, CHR 0xEC, CHR 0xED, CHR 0xEE, CHR 0xEF,
        CHR 0xF0, CHR 0xF1, CHR 0xF2, CHR 0xF3, CHR 0xF4, CHR 0xF5, CHR 0xF6, CHR 0xF8,
        CHR 0xF9, CHR 0xFA, CHR 0xFB, CHR 0xFC, CHR 0xFD, CHR 0xFE]"

definition toLowerCase_char :: "char \<Rightarrow> char" where
  "toLowerCase_char c =
     (case map_of (zip upper_case_letters lower_case_letters) c of
        Some d \<Rightarrow> d
      | None \<Rightarrow> c)"

definition toLowerCase :: "string \<Rightarrow> string" where
  "toLowerCase s = map toLowerCase_char s"

definition is_white_space :: "char \<Rightarrow> bool" where
  "is_white_space c =
     (let n = (of_char c :: nat) in (9 \<le> n \<and> n \<le> 13) \<or> n = 32 \<or> n = 160)"

definition trim :: "string \<Rightarrow> string" where
  "trim s = rev (dropWhile is_white_space (rev (dropWhile is_white_space s)))"

fun startsWith :: "string \<Rightarrow> string \<Rightarrow> bool" where
  "startsWith s [] = True"
| "startsWith [] (c # t) = False"
| "startsWith (d # s) (c # t) = (d = c \<and> startsWith s t)"

text \<open>\<open>s.includes(t)\<close>: \<open>t\<close> occurs in \<open>s\<close> as a contiguous substring.\<close>

fun includes_str :: "string \<Rightarrow> string \<Rightarrow> bool" where
  "includes_str [] t = (t = [])"
| "includes_str (c # s) t = (startsWith (c # s) t \<or> includes_str s t)"

text \<open>\<open>s.replace(t, u)\<close> with a string pattern: the first occurrence of \<open>t\<close> is replaced.\<close>

fun replace :: "string \<Rightarrow> string \<Rightarrow> string \<Rightarrow> string" where
  "replace [] t u = (if t = [] then u else [])"
| "replace (c # s) t u =
     (if startsWith (c # s) t then u @ drop (length t) (c # s) else c # replace s t u)"

text \<open>
  The values \<open>JSON.parse\<close> produces. A number is kept as the string that
  \<open>Number.prototype.toString\<close> gives for it (so \<open>0\<close> and \<open>-0\<close> are both \<open>''0''\<close>); an
  object is the list of its own properties, whose names are distinct. \<open>undefined\<close> is
  \<^term>\<open>None\<close> in an option type.
\<close>

datatype json =
  JNull | JBool bool | JNum string | JStr string | JArr "json list"
  | JObj "(string \<times> json) list"

datatype js_error = Error string | TypeError string | SyntaxError string | DOMException string

fun message :: "js_error \<Rightarrow> string" where
  "message (Error m) = m"
| "message (TypeError m) = m"
| "message (SyntaxError m) = m"
| "message (DOMException m) = m"

text \<open>
  \<open>v.k\<close> on a value that is neither \<open>null\<close> nor \<open>undefined\<close>, for the property names
  the view reads (none of them is a property of a string, number, boolean or array).
\<close>

fun member :: "json \<Rightarrow> string \<Rightarrow> json option" where
  "member (JObj kvs) k = map_of kvs k"
| "member v k = None"

text \<open>\<open>v?.k\<close>: \<open>undefined\<close> when \<open>v\<close> is \<open>null\<close> or \<open>undefined\<close>.\<close>

fun opt_member :: "json option \<Rightarrow> string \<Rightarrow> json option" where
  "opt_member None k = None"
| "opt_member (Some v) k = member v k"

text \<open>\<open>typeof v === 'string'\<close>, and the characters of a value that passed this test.\<close>

fun typeof_string :: "json option \<Rightarrow> bool" where
  "typeof_string (Some (JStr s)) = True"
| "typeof_string v = False"

fun string_value :: "json option \<Rightarrow> string" where
  "string_value (Some (JStr s)) = s"
| "string_value v = []"

fun truthy :: "json option \<Rightarrow> bool" where
  "truthy None = False"
| "truthy (Some JNull) = False"
| "truthy (Some (JBool b)) = b"
| "truthy (Some (JNum n)) = (n \<noteq> ''0'' \<and> n \<noteq> ''NaN'')"
| "truthy (Some (JStr s)) = (s \<noteq> [])"
| "truthy (Some (JArr xs)) = True"
| "truthy (Some (JObj kvs)) = True"

fun join :: "string \<Rightarrow> string list \<Rightarrow> string" where
  "join sep [] = []"
| "join sep [s] = s"
| "join sep (s # t # ss) = s @ sep @ join sep (t # ss)"

text \<open>
  String conversion inside a template literal. An object with an own property
  \<open>toString\<close> has no callable conversion left and raises a \<open>TypeError\<close>; inside an
  array, \<open>null\<close> elements print as the empty string.
\<close>

fun sequence_err :: "(js_error + 'a) list \<Rightarrow> js_error + 'a list" where
  "sequence_err [] = Inr []"
| "sequence_err (Inl e # rs) = Inl e"
| "sequence_err (Inr x # rs) = (case sequence_err rs of Inl e \<Rightarrow> Inl e | Inr xs \<Rightarrow> Inr (x # xs))"

fun ToString :: "json \<Rightarrow> js_error + string" where
  "ToString JNull = Inr ''null''"
| "ToString (JBool b) = Inr (if b then ''true'' else ''false'')"
| "ToString (JNum n) = Inr n"
| "ToString (JStr s) = Inr s"
| "ToString (JArr xs) =
     (case sequence_err (map (\<lambda>x. if x = JNull then Inr [] else ToString x) xs) of
        Inl e \<Rightarrow> Inl e
      | Inr ss \<Rightarrow> Inr (join '','' ss))"
| "ToString (JObj kvs) =
     (if map_of kvs ''toString'' = None then Inr ''[object Object]''
      else Inl (TypeError ''Cannot convert object to primitive value''))"

fun template :: "json option \<Rightarrow> js_error + string" where
  "template None = Inr ''undefined''"
| "template (Some v) = ToString v"

section \<open>Completion collaborator (services/geminiService.ts)\<close>

text \<open>
  What one call of the SDK's \<open>genAI.models.generateContent\<close> does: it resolves with a
  response whose \<open>text\<close> may be missing, or it rejects with an \<open>Error\<close> carrying a message.
\<close>

datatype sdk_outcome = SdkResponse "string option" | SdkRejects string

definition generateContent :: "sdk_outcome \<Rightarrow> js_error + string" where
  "generateContent r =
     (case r of
        SdkResponse t \<Rightarrow>
          Inr (case t of None \<Rightarrow> ''No response generated.''
               | Some s \<Rightarrow> if s = [] then ''No response generated.'' else s)
      | SdkRejects m \<Rightarrow>
          if includes_str m ''API key'' \<or> includes_str m ''UNAUTHENTICATED'' then
            Inl (Error ''Gemini API Key issue: Ensure your API key is valid, selected, and has sufficient permissions/billing enabled.'')
          else if includes_str m ''Requested entity was not found'' then
            Inl (Error ''Gemini API Error: Model not found or unavailable. Please check the model name or API key.'')
          else Inl (Error (''Failed to generate content: '' @ m)))"

section \<open>Natural-language command classifier\<close>

text \<open>
  The surroundings of the terminal view: its props, the platform's \<open>JSON\<close> object, and
  what the collaborators answer. \<open>sdk n\<close> is the outcome of the \<open>n\<close>-th completion request
  of the session; the prompt text sent with the request is not modelled, so that a
  property holds for every answer the model may give.
\<close>

record env =
  isGeminiActive :: bool
  genAI :: bool
  lookingGlassContext :: bool
  JSON_parse :: "string \<Rightarrow> js_error + json"
  JSON_stringify :: "json \<Rightarrow> string"
  sdk :: "nat \<Rightarrow> sdk_outcome"
  live_connect :: "string option"
  getUserMedia :: "string option"

definition validConceptualCommands :: "string list" where
  "validConceptualCommands =
     [''foxmeditation'', ''sovereignbrain'', ''autoclean'', ''loom_optimize'',
      ''claudenotes'', ''swarmanalytics'', ''swarmpilot'', ''jailbreak_protocol'',
      ''nlu_status'', ''newidea_init_prompt'', ''refactor_code'']"

definition validSnapshotActions :: "string list" where
  "validSnapshotActions = [''take_snapshot'', ''restore_snapshot_list'']"

definition system_error_result :: json where
  "system_error_result =
     JObj [(''intent'', JStr ''System Error''),
           (''parameters'', JObj [(''message'', JStr ''Gemini API is inactive. NLU unavailable.'')]),
           (''commandType'', JStr ''unknown'')]"

definition ask_ai_result :: "string \<Rightarrow> json" where
  "ask_ai_result rawCommand =
     JObj [(''intent'', JStr ''ask_ai''),
           (''parameters'', JObj [(''query'', JStr rawCommand)]),
           (''nuance'', JStr ''general''),
           (''commandType'', JStr ''ai_generate'')]"

definition nlu_failed_result :: "string \<Rightarrow> js_error \<Rightarrow> json" where
  "nlu_failed_result rawCommand error =
     JObj [(''intent'', JStr ''ask_ai''),
           (''parameters'', JObj [(''query'', JStr rawCommand)]),
           (''nuance'', JStr ''general''),
           (''commandType'', JStr ''ai_generate''),
           (''clarificationNeeded'', JBool True),
           (''clarificationMessage'',
              JStr (''NLU failed to parse command. Please rephrase or use 'help'. Error: ''
                    @ message error))]"

text \<open>
  The body of the \<open>try\<close> block. Reading \<open>nluOutput.intent\<close> raises a \<open>TypeError\<close> when the
  response text is the JSON literal \<open>null\<close>.
\<close>

definition nlu_try :: "env \<Rightarrow> sdk_outcome \<Rightarrow> string \<Rightarrow> js_error + json" where
  "nlu_try e r rawCommand =
     (case generateContent r of
        Inl error \<Rightarrow> Inl error
      | Inr nluResponseText \<Rightarrow>
          (case JSON_parse e nluResponseText of
             Inl error \<Rightarrow> Inl error
           | Inr nluOutput \<Rightarrow>
               if nluOutput = JNull then
                 Inl (TypeError ''Cannot read properties of null (reading 'intent')'')
               else if member nluOutput ''intent'' = Some (JStr ''trigger_conceptual_backend'')
                       \<and> typeof_string (opt_member (member nluOutput ''parameters'') ''script_name'')
               then
                 (let scriptName =
                        toLowerCase (string_value
                          (opt_member (member nluOutput ''parameters'') ''script_name''))
                  in if scriptName \<notin> set validConceptualCommands
                     then Inr (ask_ai_result rawCommand) else Inr nluOutput)
               else if member nluOutput ''intent'' = Some (JStr ''trigger_snapshot_action'')
                       \<and> typeof_string (opt_member (member nluOutput ''parameters'') ''action'')
               then
                 (let action =
                        toLowerCase (string_value
                          (opt_member (member nluOutput ''parameters'') ''action''))
                  in if action \<notin> set validSnapshotActions
                     then Inr (ask_ai_result rawCommand) else Inr nluOutput)
               else Inr nluOutput))"

definition analyzeNaturalLanguageCommand ::
  "env \<Rightarrow> sdk_outcome \<Rightarrow> string \<Rightarrow> js_error + json" where
  "analyzeNaturalLanguageCommand e r rawCommand =
     (if \<not> isGeminiActive e \<or> \<not> genAI e then Inr system_error_result
      else case nlu_try e r rawCommand of
             Inr nluOutput \<Rightarrow> Inr nluOutput
           | Inl error \<Rightarrow> Inr (nlu_failed_result rawCommand error))"

section \<open>Display sink of the terminal view\<close>

text \<open>
  The terminal view keeps its React state in \<open>useState\<close> cells. The model passes the
  cells as one record and returns the updated record. A message id is
  \<open>`<prefix>-${Date.now()}`\<close> and its timestamp is \<open>new Date().toLocaleTimeString()\<close>:
  both read the wall clock, so the model keeps the prefix of the id and leaves the
  clock readings out of the message.
\<close>

datatype message_type =
  Command | AiResponse | SystemMessage | ErrorMessage | TerminalGame
  | NluProcessing | NluClarification

record ChatMessage =
  id_prefix :: string
  sender :: string
  msg_text :: string
  isBot :: bool
  msg_type :: message_type

record UserProfile =
  profile_ident :: string
  profile_name :: string
  avatar :: string
  description :: string

text \<open>
  The avatars are emoji, whose code units lie above 255; they are written as their UTF-8
  bytes and are only ever copied into messages.
\<close>

definition USER_PROFILES :: "UserProfile list" where
  "USER_PROFILES =
     [\<lparr>profile_ident = ''mike_talbert'', profile_name = ''Mike Talbert'',
       avatar = [CHR 0xF0, CHR 0x9F, CHR 0x91, CHR 0xA8, CHR 0xE2, CHR 0x80, CHR 0x8D,
                 CHR 0xF0, CHR 0x9F, CHR 0x92, CHR 0xBB],
       description = ''The Architect and Visionary behind GlassForge, currently operating under harsh conditions.''\<rparr>,
      \<lparr>profile_ident = ''bleak'', profile_name = ''Bleak Narratives'',
       avatar = [CHR 0xF0, CHR 0x9F, CHR 0xA6, CHR 0x8A],
       description = ''A deep-dive analyst and content strategist, focused on the narrative and data streams.''\<rparr>,
      \<lparr>profile_ident = ''syntax_ai_agent'', profile_name = ''Syntax AI'',
       avatar = [CHR 0xF0, CHR 0x9F, CHR 0xA4, CHR 0x96],
       description = ''Autonomous code optimizer and system maintenance agent.''\<rparr>]"

text \<open>
  The calls the view makes to its collaborators, in the order they are made: the
  credential request, the looking-glass context (a content update is recorded by its
  title), the completion endpoint, the duplex audio session and the microphone. The
  credential request and the methods of the looking-glass context are taken to return
  without throwing.
\<close>

datatype collaborator_call =
  OnSelectApiKey
  | TakeSnapshot string
  | ShowSnapshotList
  | UpdateLookingGlassContent string
  | ToggleLookingGlass bool
  | GenerateContent nat
  | StartLiveSession
  | SessionClose
  | OpenMicrophone
  | ReleaseMicrophone

text \<open>
  \<open>sessionPromiseRef.current\<close>: \<open>null\<close>, a promise that resolved with a session, or a
  promise that rejected.
\<close>

datatype session_ref = NoSession | SessionResolved | SessionRejected

text \<open>
  The state cells and refs of the view. \<open>microphone\<close> stands for the four refs that
  \<open>startMicrophoneInput\<close> fills and \<open>stopMicrophoneInput\<close> empties together; \<open>requests\<close>
  counts the completion requests made so far, and \<open>calls\<close> is the trace of collaborator
  calls. A handler reads \<open>liveSessionActive\<close> and \<open>currentUserProfile\<close> from its closure,
  that is as they were when the command was submitted; no handler reads them after it or
  an earlier call of the same chain has changed them, so the model reads the record.
\<close>

record terminal =
  terminalOutput :: "ChatMessage list"
  commandInput :: string
  loading :: bool
  liveSessionActive :: bool
  liveTranscript :: "string option"
  audioQueue :: "string list"
  isInterrupted :: bool
  currentUserProfile :: UserProfile
  sessionPromiseRef :: session_ref
  microphone :: bool
  requests :: nat
  calls :: "collaborator_call list"

definition apostrophe :: string where
  "apostrophe = [CHR 0x27]"

definition dquote :: string where
  "dquote = [CHR 0x22]"

definition newline :: string where
  "newline = [CHR 0x0A]"

definition system_msg :: "string \<Rightarrow> string \<Rightarrow> message_type \<Rightarrow> ChatMessage" where
  "system_msg p t ty =
     \<lparr>id_prefix = p, sender = ''SYSTEM'', msg_text = t, isBot = True, msg_type = ty\<rparr>"

definition ai_msg :: "string \<Rightarrow> string \<Rightarrow> ChatMessage" where
  "ai_msg p t =
     \<lparr>id_prefix = p, sender = ''AI'', msg_text = t, isBot = True, msg_type = AiResponse\<rparr>"

definition addOutput :: "ChatMessage \<Rightarrow> terminal \<Rightarrow> terminal" where
  "addOutput m st = st\<lparr>terminalOutput := terminalOutput st @ [m]\<rparr>"

definition call :: "collaborator_call \<Rightarrow> terminal \<Rightarrow> terminal" where
  "call c st = st\<lparr>calls := calls st @ [c]\<rparr>"

definition clearTerminal :: "terminal \<Rightarrow> terminal" where
  "clearTerminal st =
     addOutput (system_msg ''system'' ''Terminal cleared.'' SystemMessage)
       (st\<lparr>terminalOutput := []\<rparr>)"

text \<open>
  \<open>lookingGlassContext?.updateLookingGlassContent(content, title)\<close> followed by
  \<open>lookingGlassContext?.toggleLookingGlass(true)\<close>: nothing happens without a context.
\<close>

definition showInLookingGlass :: "env \<Rightarrow> string \<Rightarrow> terminal \<Rightarrow> terminal" where
  "showInLookingGlass e title st =
     (if lookingGlassContext e
      then call (ToggleLookingGlass True) (call (UpdateLookingGlassContent title) st)
      else st)"

section \<open>Handlers of the terminal view\<close>

text \<open>
  A handler that can raise returns the exception, if any, with the state reached when
  it was raised: updates made before the \<open>throw\<close> stay.
\<close>

type_synonym 'a raising = "js_error option \<times> 'a"

definition api_inactive :: "env \<Rightarrow> bool" where
  "api_inactive e = (\<not> isGeminiActive e \<or> \<not> genAI e)"

text \<open>One awaited call of \<open>generateContent\<close>: the request is recorded and counted.\<close>

definition request_content :: "env \<Rightarrow> terminal \<Rightarrow> (js_error + string) \<times> terminal" where
  "request_content e st =
     (generateContent (sdk e (requests st)),
      call (GenerateContent (requests st)) (st\<lparr>requests := Suc (requests st)\<rparr>))"

text \<open>\<open>${nuance || 'none'}\<close> inside a template literal.\<close>

definition nuance_or_none :: "json option \<Rightarrow> js_error + string" where
  "nuance_or_none nuance = (if truthy nuance then template nuance else Inr ''none'')"

definition handleAIGeneralQuery ::
  "env \<Rightarrow> json option \<Rightarrow> json option \<Rightarrow> terminal \<Rightarrow> terminal raising" where
  "handleAIGeneralQuery e query nuance st =
     (if api_inactive e then
        (None, call OnSelectApiKey
           (addOutput (system_msg ''err''
              ''Gemini API is inactive. Cannot process AI queries without AI. Please select an API key.''
              ErrorMessage) st))
      else
        (let st1 = st\<lparr>loading := True\<rparr> in
         case template query of
           Inl error \<Rightarrow> (Some error, st1)
         | Inr q \<Rightarrow>
           (case nuance_or_none nuance of
              Inl error \<Rightarrow> (Some error, st1)
            | Inr n \<Rightarrow>
              (let st2 = addOutput (system_msg ''ai-query-sub''
                           (''Processing AI query: '' @ dquote @ q @ dquote @ '' (Nuance: '' @ n @ '')...'')
                           SystemMessage) st1;
                   (res, st3) = request_content e st2
               in case res of
                    Inr aiResponse \<Rightarrow>
                      (None, (addOutput (ai_msg ''ai-query-res'' aiResponse) st3)\<lparr>loading := False\<rparr>)
                  | Inl error \<Rightarrow>
                      (None, (addOutput (system_msg ''ai-query-err''
                                (''Error processing AI query: '' @ message error) ErrorMessage) st3)
                             \<lparr>loading := False\<rparr>)))))"

text \<open>
  \<open>ideaDescription.substring(0, 30)\<close>: a \<open>TypeError\<close> unless the description is a string.
  It is evaluated only when the looking-glass context is present.
\<close>

fun substring_0_30 :: "json option \<Rightarrow> js_error + string" where
  "substring_0_30 (Some (JStr s)) = Inr (take 30 s)"
| "substring_0_30 None =
     Inl (TypeError ''Cannot read properties of undefined (reading 'substring')'')"
| "substring_0_30 (Some JNull) =
     Inl (TypeError ''Cannot read properties of null (reading 'substring')'')"
| "substring_0_30 (Some v) = Inl (TypeError ''ideaDescription.substring is not a function'')"

definition handleNewIdea ::
  "env \<Rightarrow> json option \<Rightarrow> json option \<Rightarrow> terminal \<Rightarrow> terminal raising" where
  "handleNewIdea e ideaDescription nuance st =
     (if api_inactive e then
        (None, call OnSelectApiKey
           (addOutput (system_msg ''err''
              ''Gemini API is inactive. Cannot process new ideas without AI. Please select an API key.''
              ErrorMessage) st))
      else
        (let st1 = st\<lparr>loading := True\<rparr>;
             profile = currentUserProfile st in
         case template ideaDescription of
           Inl error \<Rightarrow> (Some error, st1)
         | Inr d \<Rightarrow>
           (case nuance_or_none nuance of
              Inl error \<Rightarrow> (Some error, st1)
            | Inr n \<Rightarrow>
              (let st2 = addOutput (system_msg ''idea-sub''
                           (''Processing new idea: '' @ dquote @ d @ dquote @ '' for ''
                            @ profile_name profile @ '' ('' @ avatar profile @ '') (Nuance: ''
                            @ n @ '')...'')
                           SystemMessage) st1;
                   (res, st3) = request_content e st2;
                   failed = (\<lambda>error s.
                      (None, (addOutput (system_msg ''idea-err''
                                (''Error analyzing idea: '' @ message error) ErrorMessage) s)
                             \<lparr>loading := False\<rparr>));
                   done = (\<lambda>s.
                      (None, (addOutput (ai_msg ''idea-res''
                                (''Analysis for '' @ dquote @ d @ dquote
                                 @ '' complete. See Looking Glass for details. Conceptual Loom integration for idea lifecycle tracking active.''))
                                s)\<lparr>loading := False\<rparr>))
               in case res of
                    Inl error \<Rightarrow> failed error st3
                  | Inr aiAnalysis \<Rightarrow>
                      if lookingGlassContext e then
                        (case substring_0_30 ideaDescription of
                           Inl error \<Rightarrow> failed error st3
                         | Inr t \<Rightarrow>
                             done (showInLookingGlass e
                                     (''Business Idea Analysis: '' @ t @ ''...'') st3))
                      else done st3))))"

definition handleRefactorCode :: "env \<Rightarrow> terminal \<Rightarrow> terminal" where
  "handleRefactorCode e st =
     (if api_inactive e then
        call OnSelectApiKey
          (addOutput (system_msg ''err''
             ''Gemini API is inactive. Cannot provide refactoring suggestions without AI. Please select an API key.''
             ErrorMessage) st)
      else
        (let st1 = addOutput (system_msg ''refactor-sub''
                     ''AI Agent 'Syntax AI' analyzing code for refactoring opportunities...''
                     SystemMessage) (st\<lparr>loading := True\<rparr>);
             (res, st2) = request_content e st1
         in case res of
              Inr aiAnalysis \<Rightarrow>
                (addOutput (ai_msg ''refactor-res''
                   ''Refactoring analysis for 'pain_engine.py' complete. See Looking Glass for suggestions.'')
                   (showInLookingGlass e ''Code Refactoring: pain_engine.py'' st2))
                \<lparr>loading := False\<rparr>
            | Inl error \<Rightarrow>
                (addOutput (system_msg ''refactor-err''
                   (''Error during refactoring analysis: '' @ message error) ErrorMessage) st2)
                \<lparr>loading := False\<rparr>))"

definition handleSwarmAnalytics :: "env \<Rightarrow> terminal \<Rightarrow> terminal" where
  "handleSwarmAnalytics e st = showInLookingGlass e ''Swarm Analytics: Data Flow'' st"

definition handleSwarmPilot :: "env \<Rightarrow> terminal \<Rightarrow> terminal" where
  "handleSwarmPilot e st = showInLookingGlass e ''Swarm Piloting Guide'' st"

definition handleNLUStatus :: "env \<Rightarrow> terminal \<Rightarrow> terminal" where
  "handleNLUStatus e st = showInLookingGlass e ''NLU Engine Status'' st"

definition showClaudeNotes :: "env \<Rightarrow> terminal \<Rightarrow> terminal" where
  "showClaudeNotes e st = showInLookingGlass e ''Claude's Development Notes'' st"

definition profile_label :: "terminal \<Rightarrow> string" where
  "profile_label st =
     profile_name (currentUserProfile st) @ '' ('' @ avatar (currentUserProfile st) @ '')''"

definition handleFoxMeditation :: "env \<Rightarrow> terminal \<Rightarrow> terminal" where
  "handleFoxMeditation e st =
     showInLookingGlass e ''Fox Meditation App Gen''
       (addOutput (system_msg ''foxmed''
          (''CONCEPTUAL: Initiating Fox Meditation App generation (via Kimi.ai - see backend `fox_meditation.js`).''
           @ newline @ profile_label st @ '' is generating the app.'')
          SystemMessage) st)"

definition handleSovereignBrain :: "env \<Rightarrow> terminal \<Rightarrow> terminal" where
  "handleSovereignBrain e st =
     showInLookingGlass e ''Sovereign Brain Bridge''
       (addOutput (system_msg ''sovereign''
          (''CONCEPTUAL: Bridging ModMind intel to Pytch leads (see backend `sovereign_brain_bridge.py`).''
           @ newline @ profile_label st
           @ '' is orchestrating the intel bridge. Loom integration active for data tracking.'')
          SystemMessage) st)"

definition handleAutoClean :: "env \<Rightarrow> terminal \<Rightarrow> terminal" where
  "handleAutoClean e st =
     showInLookingGlass e ''AutoClean Utility''
       (addOutput (system_msg ''autoclean''
          (''CONCEPTUAL: Initiating codebase auto-clean (see backend `autoclean.py`).''
           @ newline @ profile_label st
           @ '' is supervising syntax optimization. Optimized for massive data compression and Loom integration.'')
          SystemMessage) st)"

definition handleLoomDataOptimization :: "env \<Rightarrow> terminal \<Rightarrow> terminal" where
  "handleLoomDataOptimization e st =
     addOutput (system_msg ''loom_opt'' ''CONCEPTUAL: Loom Data Optimization status opened.''
                  SystemMessage)
       (showInLookingGlass e ''Loom Data Optimization'' st)"

section \<open>Live audio session\<close>

text \<open>
  \<open>startLiveSession\<close> of the service: \<open>live_connect\<close> is \<^term>\<open>None\<close> when the SDK's
  \<open>genAI.live.connect\<close> resolves, and the message of the error it rejects with otherwise.
\<close>

definition startLiveSession :: "env \<Rightarrow> js_error option" where
  "startLiveSession e =
     (case live_connect e of
        None \<Rightarrow> None
      | Some m \<Rightarrow>
          if includes_str m ''API key'' \<or> includes_str m ''UNAUTHENTICATED'' then
            Some (Error ''Gemini API Key issue: Ensure your API key is valid, selected, and has sufficient permissions/billing enabled.'')
          else if includes_str m ''Requested entity was not found'' then
            Some (Error ''Gemini Live API Error: Model not found or unavailable for live sessions. Please check the model name or API key.'')
          else if includes_str m ''Failed to fetch'' then
            Some (Error ''Network Error: Could not connect to Gemini Live API. Check your internet connection.'')
          else Some (Error (''Failed to start live session: '' @ m)))"

text \<open>
  \<open>getUserMedia\<close> is \<^term>\<open>None\<close> when the browser grants the microphone and the message
  of the rejection otherwise; the refs are filled only after it has been granted.
\<close>

definition startMicrophoneInput :: "env \<Rightarrow> terminal \<Rightarrow> terminal" where
  "startMicrophoneInput e st =
     (case getUserMedia e of
        None \<Rightarrow>
          addOutput (system_msg ''mic-start'' ''Microphone input started for live session.''
                       SystemMessage)
            ((call OpenMicrophone st)\<lparr>microphone := True\<rparr>)
      | Some m \<Rightarrow>
          addOutput (system_msg ''mic-err''
                       (''Error accessing microphone: '' @ m
                        @ ''. Please ensure permissions are granted.'') ErrorMessage)
            ((call OpenMicrophone st)\<lparr>liveSessionActive := False\<rparr>))"

definition stopMicrophoneInput :: "terminal \<Rightarrow> terminal" where
  "stopMicrophoneInput st =
     addOutput (system_msg ''mic-stop'' ''Microphone input stopped.'' SystemMessage)
       (if microphone st then (call ReleaseMicrophone st)\<lparr>microphone := False\<rparr> else st)"

definition startLiveConversation :: "env \<Rightarrow> terminal \<Rightarrow> terminal" where
  "startLiveConversation e st =
     (if api_inactive e then
        call OnSelectApiKey
          (addOutput (system_msg ''err''
             ''Gemini API is inactive. Cannot start live audio. Please select an API key.''
             ErrorMessage) st)
      else
        (let st1 = call StartLiveSession (st\<lparr>loading := True, liveSessionActive := True\<rparr>)
         in case startLiveSession e of
              Some error \<Rightarrow>
                (addOutput (system_msg ''live-fail''
                   (''Failed to start live conversation: '' @ message error @ ''.'') ErrorMessage)
                   (st1\<lparr>sessionPromiseRef := SessionRejected, liveSessionActive := False\<rparr>))
                \<lparr>loading := False\<rparr>
            | None \<Rightarrow>
                (addOutput (system_msg ''live-start''
                   ''Live audio conversation started. You can now speak.'' SystemMessage)
                   (startMicrophoneInput e (st1\<lparr>sessionPromiseRef := SessionResolved\<rparr>)))
                \<lparr>loading := False\<rparr>))"

text \<open>
  \<open>session.close()\<close> is registered as the \<open>then\<close> callback of the session promise: it runs
  after the synchronous rest of \<open>endLiveConversation\<close>, so after the microphone has been
  released, and only for a promise that resolved.
\<close>

definition endLiveConversation :: "terminal \<Rightarrow> terminal" where
  "endLiveConversation st =
     (let st1 = (stopMicrophoneInput (st\<lparr>sessionPromiseRef := NoSession\<rparr>))
                  \<lparr>liveSessionActive := False, liveTranscript := None, audioQueue := [],
                   isInterrupted := False\<rparr>
      in if sessionPromiseRef st = SessionResolved then call SessionClose st1 else st1)"

section \<open>Command dispatcher\<close>

definition helpText :: string where
  "helpText =
     ''Available commands (via Forge Ring or direct input):'' @ newline
     @ ''- `clear`: Clears terminal output.'' @ newline
     @ ''- `help`: Shows this help message.'' @ newline
     @ ''- `profile <id>`: Switch user profile (e.g., `profile bleak`).'' @ newline
     @ ''- `nlu_status`: Open the NLU status report.'' @ newline
     @ ''- `foxmeditation`: Conceptual: generate FoxMeditation app.'' @ newline
     @ ''- `sovereignbrain`: Conceptual: bridge intel to leads.'' @ newline
     @ ''- `autoclean`: Conceptual: clean codebase duplicates/syntax.'' @ newline
     @ ''- `loom_optimize`: Conceptual: open Loom Data Optimization status.'' @ newline
     @ ''- `claudenotes`: Open Claude's Dev Notes.'' @ newline
     @ ''- `swarmanalytics`: Open Swarm Analytics Dashboard.'' @ newline
     @ ''- `swarmpilot`: Open Swarm Piloting Guide.'' @ newline
     @ ''- `newidea`: Get help on how to input new idea for AI analysis.'' @ newline
     @ ''- `refactor_code`: Get AI-driven refactoring suggestions for current code context.'' @ newline
     @ ''- `takesnapshot <description>`: Save current app state for later restore.'' @ newline
     @ ''- `restoresnapshots`: View and restore previous app states.'' @ newline
     @ ''- `startlive`: Start AI live audio conversation.'' @ newline
     @ ''- `endlive`: End AI live audio conversation.'' @ newline
     @ ''- `jailbreak_protocol`: Initiate the Easter egg sequence.''
     @ ''- Keyboard shortcuts: Ctrl+L (Clear), Ctrl+K (Toggle Looking Glass), Ctrl+M (Mute/Unmute), Esc (Close Menus).''"

text \<open>
  A re-entrant call of \<open>handleCommandSubmit\<close> is not awaited: it runs up to its first
  \<open>await\<close>, the caller finishes (it only clears the loading flag), and the nested call
  goes on afterwards. The caller appends nothing and calls nobody after the nested call,
  so the model runs the nested call to its end where it is made: the final state is the
  same. When the nested promise rejects, nobody handles the rejection and the state is
  the one the caller had. \<^term>\<open>None\<close> is a nested call that does not come to an end.
\<close>

definition unawaited :: "(js_error + terminal) option \<Rightarrow> terminal \<Rightarrow> (terminal raising) option" where
  "unawaited r st =
     (case r of
        None \<Rightarrow> None
      | Some (Inl error) \<Rightarrow> Some (None, st)
      | Some (Inr st') \<Rightarrow> Some (None, st'))"

definition clarification_text :: "json \<Rightarrow> js_error + string" where
  "clarification_text nluResult =
     (if truthy (member nluResult ''clarificationMessage'')
      then (case template (member nluResult ''clarificationMessage'') of
              Inl error \<Rightarrow> Inl error
            | Inr m \<Rightarrow> Inr (''Clarification needed: '' @ m))
      else Inr ''Clarification needed: Please provide more details.'')"

definition snapshot_action :: "env \<Rightarrow> json option \<Rightarrow> string \<Rightarrow> terminal \<Rightarrow> terminal" where
  "snapshot_action e snapshotAction rawCommand st =
     (if snapshotAction = Some (JStr ''take_snapshot'') then
        (let description = trim (replace rawCommand ''take snapshot'' [])
         in if description \<noteq> [] then
              addOutput (system_msg ''snapshot-taken''
                 (''Snapshot '' @ apostrophe @ description @ apostrophe @ '' queued for saving.'')
                 SystemMessage)
                (if lookingGlassContext e then call (TakeSnapshot description) st else st)
            else
              addOutput (system_msg ''snapshot-fail''
                 ''Error: Please provide a description for the snapshot. E.g., `take snapshot initial setup`''
                 ErrorMessage) st)
      else if snapshotAction = Some (JStr ''restore_snapshot_list'') then
        addOutput (system_msg ''snapshot-list''
           ''Displaying available snapshots in Looking Glass.'' SystemMessage)
          (if lookingGlassContext e then call ShowSnapshotList st else st)
      else st)"

definition switch_profile :: "env \<Rightarrow> json option \<Rightarrow> terminal \<Rightarrow> terminal raising" where
  "switch_profile e profileId st =
     (case find (\<lambda>p. Some (JStr (profile_ident p)) = profileId) USER_PROFILES of
        Some newProfile \<Rightarrow>
          (None,
           showInLookingGlass e ''User Profile: Active''
             (addOutput (system_msg ''profile-switch''
                (''User profile switched to: '' @ profile_name newProfile @ '' (''
                 @ avatar newProfile @ '').'') SystemMessage)
                (st\<lparr>currentUserProfile := newProfile\<rparr>)))
      | None \<Rightarrow>
          (case template profileId of
             Inl error \<Rightarrow> (Some error, st)
           | Inr shown \<Rightarrow>
               (None,
                addOutput (system_msg ''profile-err''
                  (''Error: Profile '' @ apostrophe @ shown @ apostrophe
                   @ '' not found. Available profiles: ''
                   @ join '', '' (map profile_ident USER_PROFILES) @ ''.'') ErrorMessage) st)))"

definition conceptual_backend ::
  "(json option \<Rightarrow> terminal \<Rightarrow> (js_error + terminal) option) \<Rightarrow> env \<Rightarrow> json option
     \<Rightarrow> terminal \<Rightarrow> (terminal raising) option" where
  "conceptual_backend reenter e scriptName st =
     (if scriptName = Some (JStr ''foxmeditation'') then Some (None, handleFoxMeditation e st)
      else if scriptName = Some (JStr ''sovereignbrain'') then Some (None, handleSovereignBrain e st)
      else if scriptName = Some (JStr ''autoclean'') then Some (None, handleAutoClean e st)
      else if scriptName = Some (JStr ''loom_optimize'') then
        Some (None, handleLoomDataOptimization e st)
      else if scriptName = Some (JStr ''claudenotes'') then Some (None, showClaudeNotes e st)
      else if scriptName = Some (JStr ''swarmanalytics'') then Some (None, handleSwarmAnalytics e st)
      else if scriptName = Some (JStr ''swarmpilot'') then Some (None, handleSwarmPilot e st)
      else if scriptName = Some (JStr ''refactor_code'') then Some (None, handleRefactorCode e st)
      else if scriptName = Some (JStr ''jailbreak_protocol'') then
        unawaited (reenter scriptName st) st
      else if scriptName = Some (JStr ''nlu_status'') then Some (None, handleNLUStatus e st)
      else
        (case template scriptName of
           Inl error \<Rightarrow> Some (Some error, st)
         | Inr shown \<Rightarrow>
             Some (None,
               addOutput (system_msg ''err-script''
                 (''Conceptual script '' @ apostrophe @ shown @ apostrophe
                  @ '' not recognized or handled.'') ErrorMessage) st)))"

text \<open>
  The part of \<open>handleCommandSubmit\<close> that follows the classification: the clarification
  short-circuit and the \<open>switch\<close> on the intent. \<open>reenter\<close> is the entry point itself, for the
  branches that call it again.
\<close>

definition dispatch ::
  "(json option \<Rightarrow> terminal \<Rightarrow> (js_error + terminal) option) \<Rightarrow> env \<Rightarrow> json \<Rightarrow> string
     \<Rightarrow> terminal \<Rightarrow> (terminal raising) option" where
  "dispatch reenter e nluResult rawCommand st =
     (if truthy (member nluResult ''clarificationNeeded'') then
        (case clarification_text nluResult of
           Inl error \<Rightarrow> Some (Some error, st)
         | Inr t \<Rightarrow> Some (None, addOutput (system_msg ''clarify'' t NluClarification) st))
      else
        (let intent = member nluResult ''intent'';
             parameters = member nluResult ''parameters'';
             nuance = member nluResult ''nuance''
         in if intent = Some (JStr ''clear'') then Some (None, clearTerminal st)
            else if intent = Some (JStr ''help'') then
              Some (None, addOutput (system_msg ''help'' helpText SystemMessage) st)
            else if intent = Some (JStr ''newidea_init_prompt'') then
              Some (None, addOutput (system_msg ''newidea-prompt''
                ''Please type your new idea for AI analysis. Use the format: `new idea: <description>`.''
                SystemMessage) st)
            else if intent = Some (JStr ''trigger_snapshot_action'') then
              Some (None, snapshot_action e (opt_member parameters ''action'') rawCommand st)
            else if intent = Some (JStr ''switch_profile'') then
              Some (switch_profile e (opt_member parameters ''profile_id'') st)
            else if intent = Some (JStr ''claudenotes'') then Some (None, showClaudeNotes e st)
            else if intent = Some (JStr ''swarmanalytics'') then
              Some (None, handleSwarmAnalytics e st)
            else if intent = Some (JStr ''swarmpilot'') then Some (None, handleSwarmPilot e st)
            else if intent = Some (JStr ''nlu_status'') then Some (None, handleNLUStatus e st)
            else if intent = Some (JStr ''generate_idea'') then
              Some (handleNewIdea e (opt_member parameters ''description'') nuance st)
            else if intent = Some (JStr ''ask_ai'') then
              Some (handleAIGeneralQuery e (opt_member parameters ''query'') nuance st)
            else if intent = Some (JStr ''trigger_conceptual_backend'') then
              conceptual_backend reenter e (opt_member parameters ''script_name'') st
            else if intent = Some (JStr ''start_live_session'') then
              (if liveSessionActive st then
                 Some (None, addOutput (system_msg ''err''
                   ''Error: Live session already active. Use `endlive` to stop.'' ErrorMessage) st)
               else Some (None, startLiveConversation e st))
            else if intent = Some (JStr ''end_live_session'') then
              (if \<not> liveSessionActive st then
                 Some (None, addOutput (system_msg ''err''
                   ''Error: No live session active. Use `startlive` to begin.'' ErrorMessage) st)
               else Some (None, endLiveConversation st))
            else if intent = Some (JStr ''play_fox_hunt'') then
              unawaited (reenter (opt_member parameters ''action'') st) st
            else if intent = Some (JStr ''jailbreak_protocol'') then
              unawaited (reenter (Some (JStr ''jailbreak_protocol'')) st) st
            else
              Some (None, addOutput (system_msg ''nlu-unknown''
                (''NLU could not confidently determine intent for '' @ dquote @ rawCommand @ dquote
                 @ ''. Please try rephrasing or use 'help'.'') NluClarification) st)))"

text \<open>The awaited classification: it makes a completion request when the API is active.\<close>

definition classify :: "env \<Rightarrow> string \<Rightarrow> terminal \<Rightarrow> (js_error + json) \<times> terminal" where
  "classify e rawCommand st =
     (analyzeNaturalLanguageCommand e (sdk e (requests st)) rawCommand,
      if api_inactive e then st
      else call (GenerateContent (requests st)) (st\<lparr>requests := Suc (requests st)\<rparr>))"

definition nlu_result_text :: "env \<Rightarrow> json \<Rightarrow> js_error + string" where
  "nlu_result_text e nluResult =
     (case template (member nluResult ''intent'') of
        Inl error \<Rightarrow> Inl error
      | Inr i \<Rightarrow>
          (let params = (case member nluResult ''parameters'' of
                           None \<Rightarrow> []
                         | Some p \<Rightarrow>
                             if truthy (Some p) then '', Params: '' @ JSON_stringify e p else [])
           in if truthy (member nluResult ''nuance'') then
                (case template (member nluResult ''nuance'') of
                   Inl error \<Rightarrow> Inl error
                 | Inr n \<Rightarrow>
                     Inr (''NLU Result: Intent: '' @ dquote @ i @ dquote @ params
                          @ '', Nuance: '' @ dquote @ n @ dquote))
              else Inr (''NLU Result: Intent: '' @ dquote @ i @ dquote @ params)))"

text \<open>The body of the \<open>try\<close> block of \<open>handleCommandSubmit\<close>.\<close>

definition submit_try ::
  "(json option \<Rightarrow> terminal \<Rightarrow> (js_error + terminal) option) \<Rightarrow> env \<Rightarrow> string \<Rightarrow> terminal
     \<Rightarrow> (terminal raising) option" where
  "submit_try reenter e rawCommand st =
     (let st1 = addOutput (system_msg ''nlu-proc''
                   ''NLU Processing... Analyzing intent and nuance.'' NluProcessing) st;
          (res, st2) = classify e rawCommand st1
      in case res of
           Inl error \<Rightarrow> Some (Some error, st2)
         | Inr nluResult \<Rightarrow>
             (case nlu_result_text e nluResult of
                Inl error \<Rightarrow> Some (Some error, st2)
              | Inr t \<Rightarrow>
                  dispatch reenter e nluResult rawCommand
                    (addOutput (system_msg ''nlu-res'' t NluProcessing) st2)))"

text \<open>\<open>rawCommand.trim()\<close> on an argument that is not a string.\<close>

fun trim_type_error :: "json option \<Rightarrow> js_error" where
  "trim_type_error None = TypeError ''Cannot read properties of undefined (reading 'trim')''"
| "trim_type_error (Some JNull) = TypeError ''Cannot read properties of null (reading 'trim')''"
| "trim_type_error (Some v) = TypeError ''rawCommand.trim is not a function''"

text \<open>
  \<open>handleCommandSubmit\<close>, with every call it makes to itself. The first argument bounds
  the number of nested calls: \<^term>\<open>None\<close> means that the chain of calls started by the
  command is longer than the bound. A result \<open>Inl\<close> is a rejected promise, \<open>Inr\<close> the
  state when the last call of the chain has finished.
\<close>

primrec handleCommandSubmit ::
  "nat \<Rightarrow> env \<Rightarrow> json option \<Rightarrow> terminal \<Rightarrow> (js_error + terminal) option" where
  "handleCommandSubmit 0 e rawCommand st = None"
| "handleCommandSubmit (Suc depth) e rawCommand st =
     (if \<not> typeof_string rawCommand then Some (Inl (trim_type_error rawCommand))
      else if trim (string_value rawCommand) = [] then Some (Inr st)
      else
        (let raw = string_value rawCommand;
             st1 = (addOutput \<lparr>id_prefix = ''cmd'', sender = ''USER'', msg_text = ''> '' @ raw,
                               isBot = False, msg_type = Command\<rparr> st)
                   \<lparr>commandInput := [], loading := True\<rparr>
         in case submit_try (handleCommandSubmit depth e) e raw st1 of
              None \<Rightarrow> None
            | Some (None, st2) \<Rightarrow> Some (Inr (st2\<lparr>loading := False\<rparr>))
            | Some (Some error, st2) \<Rightarrow>
                Some (Inr ((addOutput (system_msg ''err''
                              (''Error processing command: '' @ message error) ErrorMessage) st2)
                           \<lparr>loading := False\<rparr>))))"

section \<open>Base64 helpers of the audio service (services/geminiService.ts)\<close>

text \<open>
  \<open>encode\<close> and \<open>decode\<close> go through the browser's \<open>btoa\<close> and \<open>atob\<close>. Both are
  modelled as the HTML standard defines them: \<open>btoa\<close> is the base64 encoding of RFC 4648
  of a string whose code units are all below 256 (and throws otherwise), \<open>atob\<close> is the
  forgiving-base64 decoding. A binary string is the list of its code units.
\<close>

definition base64_alphabet :: string where
  "base64_alphabet = ''ABCDEFGHIJKLMNOPQRSTUVWXYZabcdefghijklmnopqrstuvwxyz0123456789+/''"

definition base64_char :: "nat \<Rightarrow> char" where
  "base64_char n = base64_alphabet ! n"

definition base64_index :: "char \<Rightarrow> nat option" where
  "base64_index c = map_of (zip base64_alphabet [0..<64]) c"

fun sextets :: "nat list \<Rightarrow> nat list" where
  "sextets [] = []"
| "sextets [a] = [a div 4, (a mod 4) * 16]"
| "sextets [a, b] = [a div 4, (a mod 4) * 16 + b div 16, (b mod 16) * 4]"
| "sextets (a # b # c # rest) =
     [a div 4, (a mod 4) * 16 + b div 16, (b mod 16) * 4 + c div 64, c mod 64] @ sextets rest"

definition padding :: "nat list \<Rightarrow> string" where
  "padding binary = replicate ((3 - length binary mod 3) mod 3) (CHR ''='')"

definition btoa :: "nat list \<Rightarrow> js_error + string" where
  "btoa binary =
     (if \<exists>c \<in> set binary. 255 < c
      then Inl (DOMException ''The string to be encoded contains characters outside of the Latin1 range.'')
      else Inr (map base64_char (sextets binary) @ padding binary))"

text \<open>
  Forgiving-base64 decoding: ASCII white space is removed; when the length is then a
  multiple of four, one or two trailing \<open>=\<close> are removed; a length that leaves
  remainder one, or a character outside the alphabet, is a failure; the bits left over
  after the last whole octet are dropped.
\<close>

definition is_ascii_whitespace :: "char \<Rightarrow> bool" where
  "is_ascii_whitespace c = (c \<in> set [CHR 0x09, CHR 0x0A, CHR 0x0C, CHR 0x0D, CHR 0x20])"

definition strip_padding :: "string \<Rightarrow> string" where
  "strip_padding data =
     (if length data mod 4 = 0 then
        (case rev data of
           c # d # r \<Rightarrow> if c = CHR ''='' \<and> d = CHR ''='' then rev r
                        else if c = CHR ''='' then rev (d # r) else data
         | [c] \<Rightarrow> if c = CHR ''='' then [] else data
         | [] \<Rightarrow> data)
      else data)"

fun octets :: "nat list \<Rightarrow> nat list" where
  "octets (p # q # r # s # rest) =
     [p * 4 + q div 16, (q mod 16) * 16 + r div 4, (r mod 4) * 64 + s] @ octets rest"
| "octets [p, q, r] = [p * 4 + q div 16, (q mod 16) * 16 + r div 4]"
| "octets [p, q] = [p * 4 + q div 16]"
| "octets ps = []"

fun those_indices :: "char list \<Rightarrow> nat list option" where
  "those_indices [] = Some []"
| "those_indices (c # cs) =
     (case base64_index c of
        None \<Rightarrow> None
      | Some n \<Rightarrow> (case those_indices cs of None \<Rightarrow> None | Some ns \<Rightarrow> Some (n # ns)))"

definition atob :: "string \<Rightarrow> js_error + nat list" where
  "atob data =
     (let stripped = strip_padding (filter (\<lambda>c. \<not> is_ascii_whitespace c) data)
      in if length stripped mod 4 = 1
         then Inl (DOMException ''The string to be decoded is not correctly encoded.'')
         else (case those_indices stripped of
                 None \<Rightarrow> Inl (DOMException ''The string to be decoded is not correctly encoded.'')
               | Some ns \<Rightarrow> Inr (octets ns)))"

text \<open>
  The loop of \<open>encode\<close> appends \<open>String.fromCharCode(bytes[i])\<close> to \<open>binary\<close>; the loop of
  \<open>decode\<close> stores \<open>binaryString.charCodeAt(i)\<close> in a \<open>Uint8Array\<close>, which keeps the
  value modulo 256.
\<close>

fun encode_loop :: "8 word list \<Rightarrow> nat list \<Rightarrow> nat list" where
  "encode_loop [] binary = binary"
| "encode_loop (byte # bytes) binary = encode_loop bytes (binary @ [unat byte])"

definition encode :: "8 word list \<Rightarrow> js_error + string" where
  "encode bytes = btoa (encode_loop bytes [])"

fun decode_loop :: "nat list \<Rightarrow> 8 word list \<Rightarrow> 8 word list" where
  "decode_loop [] bytes = bytes"
| "decode_loop (c # binaryString) bytes = decode_loop binaryString (bytes @ [of_nat c])"

definition decode :: "string \<Rightarrow> js_error + 8 word list" where
  "decode base64 =
     (case atob base64 of
        Inl error \<Rightarrow> Inl error
      | Inr binaryString \<Rightarrow> Inr (decode_loop binaryString []))"

section \<open>Snapshot store (services/snapshotService.ts)\<close>










section \<open>Intents and sample surroundings\<close>

text \<open>
  The intents the instruction prompt of the classifier enumerates, followed by the further
  \<open>case\<close> labels of the dispatcher's \<open>switch\<close>.
\<close>

definition supported_intents :: "string list" where
  "supported_intents =
     [''generate_idea'', ''ask_ai'', ''clear'', ''help'', ''switch_profile'',
      ''trigger_conceptual_backend'', ''trigger_snapshot_action'', ''start_live_session'',
      ''end_live_session'', ''play_fox_hunt'', ''clarify'',
      ''newidea_init_prompt'', ''claudenotes'', ''swarmanalytics'', ''swarmpilot'',
      ''nlu_status'', ''jailbreak_protocol'', ''unknown'']"

definition intent_supported :: "json \<Rightarrow> bool" where
  "intent_supported v =
     (member v ''intent'' \<in> set (map (\<lambda>i. Some (JStr i)) supported_intents))"

text \<open>
  Six response texts of the model with the values \<open>JSON.parse\<close> gives for them, and a
  \<open>JSON.parse\<close> that knows these texts and rejects every other text.
\<close>

definition quoted :: "string \<Rightarrow> string" where
  "quoted s = dquote @ s @ dquote"

definition clear_text :: string where
  "clear_text =
     ''{'' @ quoted ''intent'' @ '': '' @ quoted ''clear'' @ '', ''
     @ quoted ''commandType'' @ '': '' @ quoted ''local'' @ ''}''"

definition clear_answer :: json where
  "clear_answer = JObj [(''intent'', JStr ''clear''), (''commandType'', JStr ''local'')]"

definition bogus_snapshot_text :: string where
  "bogus_snapshot_text =
     ''{'' @ quoted ''intent'' @ '': '' @ quoted ''trigger_snapshot_action'' @ '', ''
     @ quoted ''parameters'' @ '': {'' @ quoted ''action'' @ '': '' @ quoted ''Bogus'' @ ''}}''"

definition bogus_snapshot_answer :: json where
  "bogus_snapshot_answer =
     JObj [(''intent'', JStr ''trigger_snapshot_action''),
           (''parameters'', JObj [(''action'', JStr ''Bogus'')])]"

definition deep_thought_text :: string where
  "deep_thought_text =
     ''{'' @ quoted ''intent'' @ '': '' @ quoted ''trigger_conceptual_backend'' @ '', ''
     @ quoted ''parameters'' @ '': {'' @ quoted ''script_name'' @ '': '' @ quoted ''DeepThought''
     @ ''}}''"

definition deep_thought_answer :: json where
  "deep_thought_answer =
     JObj [(''intent'', JStr ''trigger_conceptual_backend''),
           (''parameters'', JObj [(''script_name'', JStr ''DeepThought'')])]"

definition jailbreak_text :: string where
  "jailbreak_text =
     ''{'' @ quoted ''intent'' @ '': '' @ quoted ''trigger_conceptual_backend'' @ '', ''
     @ quoted ''parameters'' @ '': {'' @ quoted ''script_name'' @ '': ''
     @ quoted ''jailbreak_protocol'' @ ''}, ''
     @ quoted ''commandType'' @ '': '' @ quoted ''conceptual'' @ ''}''"

definition jailbreak_answer :: json where
  "jailbreak_answer =
     JObj [(''intent'', JStr ''trigger_conceptual_backend''),
           (''parameters'', JObj [(''script_name'', JStr ''jailbreak_protocol'')]),
           (''commandType'', JStr ''conceptual'')]"

definition numeric_script_text :: string where
  "numeric_script_text =
     ''{'' @ quoted ''intent'' @ '': '' @ quoted ''trigger_conceptual_backend'' @ '', ''
     @ quoted ''parameters'' @ '': {'' @ quoted ''script_name'' @ '': 42}}''"

definition numeric_script_answer :: json where
  "numeric_script_answer =
     JObj [(''intent'', JStr ''trigger_conceptual_backend''),
           (''parameters'', JObj [(''script_name'', JNum ''42'')])]"

definition no_action_text :: string where
  "no_action_text = ''{'' @ quoted ''intent'' @ '': '' @ quoted ''trigger_snapshot_action'' @ ''}''"

definition no_action_answer :: json where
  "no_action_answer = JObj [(''intent'', JStr ''trigger_snapshot_action'')]"

definition sample_parse :: "string \<Rightarrow> js_error + json" where
  "sample_parse t =
     (if t = clear_text then Inr clear_answer
      else if t = bogus_snapshot_text then Inr bogus_snapshot_answer
      else if t = deep_thought_text then Inr deep_thought_answer
      else if t = jailbreak_text then Inr jailbreak_answer
      else if t = numeric_script_text then Inr numeric_script_answer
      else if t = no_action_text then Inr no_action_answer
      else Inl (SyntaxError ''Unexpected token in JSON''))"

text \<open>
  Surroundings with an active API and a looking-glass context, for given answers of the
  completion endpoint.
\<close>

definition active_env :: "(nat \<Rightarrow> sdk_outcome) \<Rightarrow> env" where
  "active_env answers =
     \<lparr>isGeminiActive = True, genAI = True, lookingGlassContext = True,
      JSON_parse = sample_parse, JSON_stringify = (\<lambda>v. ''{}''), sdk = answers,
      live_connect = None, getUserMedia = None\<rparr>"

text \<open>
  \<open>jailbreak_text\<close> is the answer the instruction prompt asks of the model for the command
  \<open>jailbreak_protocol\<close>. In \<open>jailbreak_env\<close> the model gives it to every request.
\<close>

definition jailbreak_env :: env where
  "jailbreak_env = active_env (\<lambda>n. SdkResponse (Some jailbreak_text))"

text \<open>The state of the view when it is mounted: the initial values of its \<open>useState\<close> cells.\<close>

definition initial_terminal :: terminal where
  "initial_terminal =
     \<lparr>terminalOutput = [], commandInput = [], loading = False, liveSessionActive = False,
      liveTranscript = None, audioQueue = [], isInterrupted = False,
      currentUserProfile = USER_PROFILES ! 0, sessionPromiseRef = NoSession,
      microphone = False, requests = 0, calls = []\<rparr>"


text \<open>
  The answer the instruction prompt asks of the model for a request to start a live
  session, and surroundings in which the browser refuses the microphone.
\<close>

definition start_live_answer :: json where
  "start_live_answer =
     JObj [(''intent'', JStr ''start_live_session''), (''commandType'', JStr ''ai_live'')]"

definition microphone_denied_env :: env where
  "microphone_denied_env =
     (active_env (\<lambda>n. SdkResponse None))\<lparr>getUserMedia := Some ''Permission denied''\<rparr>"










section \<open>Verified properties\<close>

lemma sample_texts_nonempty:
  "clear_text \<noteq> []" "bogus_snapshot_text \<noteq> []" "deep_thought_text \<noteq> []"
  "jailbreak_text \<noteq> []" "numeric_script_text \<noteq> []" "no_action_text \<noteq> []"
  by (simp_all add: clear_text_def bogus_snapshot_text_def deep_thought_text_def
      jailbreak_text_def numeric_script_text_def no_action_text_def)

lemma sample_parse_texts:
  "sample_parse clear_text = Inr clear_answer"
  "sample_parse bogus_snapshot_text = Inr bogus_snapshot_answer"
  "sample_parse deep_thought_text = Inr deep_thought_answer"
  "sample_parse jailbreak_text = Inr jailbreak_answer"
  "sample_parse ''No response generated.'' = Inl (SyntaxError ''Unexpected token in JSON'')"
  "sample_parse numeric_script_text = Inr numeric_script_answer"
  "sample_parse no_action_text = Inr no_action_answer"
  by (simp_all add: sample_parse_def clear_text_def bogus_snapshot_text_def
      deep_thought_text_def jailbreak_text_def numeric_script_text_def no_action_text_def
      quoted_def dquote_def)

lemma generateContent_text:
  "t \<noteq> [] \<Longrightarrow> generateContent (SdkResponse (Some t)) = Inr t"
  "generateContent (SdkResponse None) = Inr ''No response generated.''"
  by (simp_all add: generateContent_def)

subsection \<open>Display sink\<close>

text \<open>
  C7. Whatever the display sink held before, also nothing, \<open>clearTerminal\<close> leaves it
  holding exactly one message: the system message with text "Terminal cleared.".
\<close>

theorem clearTerminal_single_message:
  "terminalOutput (clearTerminal st) =
     [\<lparr>id_prefix = ''system'', sender = ''SYSTEM'', msg_text = ''Terminal cleared.'',
       isBot = True, msg_type = SystemMessage\<rparr>]"
  by (simp add: clearTerminal_def addOutput_def system_msg_def)

subsection \<open>Classifier\<close>

text \<open>
  C1. With the API active, when the completion call throws or the response text is not
  parseable JSON, the classifier returns the fallback: intent \<open>ask_ai\<close>, the raw command
  as the query, \<open>clarificationNeeded\<close> true, and a clarification message that ends with
  the text of the error. No input makes the classifier raise: it always returns a value.
\<close>

theorem nlu_failure_returns_fallback:
  assumes "isGeminiActive e" and "genAI e"
    and "generateContent r = Inl error
         \<or> (\<exists>t. generateContent r = Inr t \<and> JSON_parse e t = Inl error)"
  shows "analyzeNaturalLanguageCommand e r rawCommand =
           Inr (JObj [(''intent'', JStr ''ask_ai''),
                      (''parameters'', JObj [(''query'', JStr rawCommand)]),
                      (''nuance'', JStr ''general''),
                      (''commandType'', JStr ''ai_generate''),
                      (''clarificationNeeded'', JBool True),
                      (''clarificationMessage'',
                         JStr (''NLU failed to parse command. Please rephrase or use 'help'. Error: ''
                               @ message error))])
         \<and> (\<forall>e' r' c. \<exists>v. analyzeNaturalLanguageCommand e' r' c = Inr v)"
proof
  show "analyzeNaturalLanguageCommand e r rawCommand =
          Inr (JObj [(''intent'', JStr ''ask_ai''),
                     (''parameters'', JObj [(''query'', JStr rawCommand)]),
                     (''nuance'', JStr ''general''),
                     (''commandType'', JStr ''ai_generate''),
                     (''clarificationNeeded'', JBool True),
                     (''clarificationMessage'',
                        JStr (''NLU failed to parse command. Please rephrase or use 'help'. Error: ''
                              @ message error))])"
    using assms
    by (auto simp: analyzeNaturalLanguageCommand_def nlu_try_def nlu_failed_result_def)
  show "\<forall>e' r' c. \<exists>v. analyzeNaturalLanguageCommand e' r' c = Inr v"
    by (simp add: analyzeNaturalLanguageCommand_def split: sum.split)
qed

theorem nlu_failure_returns_fallback_witness:
  "analyzeNaturalLanguageCommand (active_env (\<lambda>n. SdkResponse None))
     (SdkResponse None) ''open the pod bay doors''
   = Inr (JObj [(''intent'', JStr ''ask_ai''),
                (''parameters'', JObj [(''query'', JStr ''open the pod bay doors'')]),
                (''nuance'', JStr ''general''),
                (''commandType'', JStr ''ai_generate''),
                (''clarificationNeeded'', JBool True),
                (''clarificationMessage'',
                   JStr ''NLU failed to parse command. Please rephrase or use 'help'. Error: Unexpected token in JSON'')])
   \<and> analyzeNaturalLanguageCommand (active_env (\<lambda>n. SdkResponse None))
     (SdkRejects ''503 overloaded'') ''clear''
   = Inr (JObj [(''intent'', JStr ''ask_ai''),
                (''parameters'', JObj [(''query'', JStr ''clear'')]),
                (''nuance'', JStr ''general''),
                (''commandType'', JStr ''ai_generate''),
                (''clarificationNeeded'', JBool True),
                (''clarificationMessage'',
                   JStr ''NLU failed to parse command. Please rephrase or use 'help'. Error: Failed to generate content: 503 overloaded'')])"
  using nlu_failure_returns_fallback
          [of "active_env (\<lambda>n. SdkResponse None)" "SdkResponse None"
              "SyntaxError ''Unexpected token in JSON''" "''open the pod bay doors''"]
        nlu_failure_returns_fallback
          [of "active_env (\<lambda>n. SdkResponse None)" "SdkRejects ''503 overloaded''"
              "Error ''Failed to generate content: 503 overloaded''" "''clear''"]
  by (simp add: active_env_def generateContent_text sample_parse_texts)
     (simp add: generateContent_def)

lemma typeof_string_iff: "typeof_string v \<longleftrightarrow> (\<exists>s. v = Some (JStr s))"
  by (induction v rule: typeof_string.induct) simp_all

lemma nlu_try_parsed:
  assumes "generateContent r = Inr t" and "JSON_parse e t = Inr nluOutput"
    and "nluOutput \<noteq> JNull"
  shows "nlu_try e r rawText =
     Inr (if (member nluOutput ''intent'' = Some (JStr ''trigger_conceptual_backend'')
              \<and> (\<exists>name. opt_member (member nluOutput ''parameters'') ''script_name''
                           = Some (JStr name)
                         \<and> toLowerCase name \<notin> set validConceptualCommands))
            \<or> (member nluOutput ''intent'' = Some (JStr ''trigger_snapshot_action'')
              \<and> (\<exists>name. opt_member (member nluOutput ''parameters'') ''action''
                           = Some (JStr name)
                         \<and> toLowerCase name \<notin> set validSnapshotActions))
          then ask_ai_result rawText else nluOutput)"
  using assms by (auto simp: nlu_try_def Let_def typeof_string_iff)

lemma if_result:
  "x = Inr (if H then a else b) \<Longrightarrow> (H \<longrightarrow> x = Inr a) \<and> (n \<and> \<not> H \<longrightarrow> x = Inr b)"
  by simp

text \<open>
  C2, as stated, fails: a parsed output with intent \<open>trigger_conceptual_backend\<close> whose
  \<open>script_name\<close> is the number 42, which is none of the eleven accepted names, is returned
  as it is, and so is a parsed output with intent \<open>trigger_snapshot_action\<close> and no
  \<open>action\<close> at all. The allow-lists are consulted only behind the test
  \<open>typeof ... === 'string'\<close>.
\<close>

theorem non_string_name_returned_unchanged:
  "analyzeNaturalLanguageCommand (active_env (\<lambda>n. SdkResponse None))
     (SdkResponse (Some numeric_script_text)) ''run script 42''
   = Inr (JObj [(''intent'', JStr ''trigger_conceptual_backend''),
                (''parameters'', JObj [(''script_name'', JNum ''42'')])])
   \<and> analyzeNaturalLanguageCommand (active_env (\<lambda>n. SdkResponse None))
     (SdkResponse (Some no_action_text)) ''snapshot please''
   = Inr (JObj [(''intent'', JStr ''trigger_snapshot_action'')])"
  by (simp add: analyzeNaturalLanguageCommand_def nlu_try_def active_env_def
      generateContent_text sample_texts_nonempty sample_parse_texts
      numeric_script_answer_def no_action_answer_def)

text \<open>
  C2, amended. Let the API be active and the response text parse to \<open>nluOutput\<close>. When
  \<open>nluOutput\<close> has intent \<open>trigger_conceptual_backend\<close> and a \<open>script_name\<close> that is a
  string whose lower-case form is none of the eleven accepted names, or intent
  \<open>trigger_snapshot_action\<close> and an \<open>action\<close> that is a string whose lower-case form is
  none of the two accepted actions, the classifier drops it and returns intent \<open>ask_ai\<close>
  with the raw text as the query and nuance \<open>general\<close> (the object also carries
  \<open>commandType: "ai_generate"\<close>). Every other parsed output that is not \<open>null\<close>, in
  particular one whose \<open>script_name\<close> or \<open>action\<close> is absent or not a string, is returned
  as it is.
\<close>

theorem allow_list_check_result:
  assumes "isGeminiActive e" and "genAI e"
    and "generateContent r = Inr t" and "JSON_parse e t = Inr nluOutput"
  shows "((member nluOutput ''intent'' = Some (JStr ''trigger_conceptual_backend'')
           \<and> (\<exists>name. opt_member (member nluOutput ''parameters'') ''script_name''
                        = Some (JStr name)
                 \<and> toLowerCase name \<notin> set [''foxmeditation'', ''sovereignbrain'', ''autoclean'',
                       ''loom_optimize'', ''claudenotes'', ''swarmanalytics'', ''swarmpilot'',
                       ''jailbreak_protocol'', ''nlu_status'', ''newidea_init_prompt'',
                       ''refactor_code'']))
          \<or> (member nluOutput ''intent'' = Some (JStr ''trigger_snapshot_action'')
           \<and> (\<exists>name. opt_member (member nluOutput ''parameters'') ''action'' = Some (JStr name)
                 \<and> toLowerCase name \<notin> set [''take_snapshot'', ''restore_snapshot_list'']))
          \<longrightarrow> analyzeNaturalLanguageCommand e r rawText =
                Inr (JObj [(''intent'', JStr ''ask_ai''),
                           (''parameters'', JObj [(''query'', JStr rawText)]),
                           (''nuance'', JStr ''general''),
                           (''commandType'', JStr ''ai_generate'')]))
       \<and> (nluOutput \<noteq> JNull
          \<and> \<not> ((member nluOutput ''intent'' = Some (JStr ''trigger_conceptual_backend'')
           \<and> (\<exists>name. opt_member (member nluOutput ''parameters'') ''script_name''
                        = Some (JStr name)
                 \<and> toLowerCase name \<notin> set [''foxmeditation'', ''sovereignbrain'', ''autoclean'',
                       ''loom_optimize'', ''claudenotes'', ''swarmanalytics'', ''swarmpilot'',
                       ''jailbreak_protocol'', ''nlu_status'', ''newidea_init_prompt'',
                       ''refactor_code'']))
          \<or> (member nluOutput ''intent'' = Some (JStr ''trigger_snapshot_action'')
           \<and> (\<exists>name. opt_member (member nluOutput ''parameters'') ''action'' = Some (JStr name)
                 \<and> toLowerCase name \<notin> set [''take_snapshot'', ''restore_snapshot_list''])))
          \<longrightarrow> analyzeNaturalLanguageCommand e r rawText = Inr nluOutput)"
proof (cases "nluOutput = JNull")
  case True
  then show ?thesis by simp
next
  case False
  have "analyzeNaturalLanguageCommand e r rawText = nlu_try e r rawText"
    using assms(1,2) nlu_try_parsed [OF assms(3,4) False, of rawText]
    by (simp add: analyzeNaturalLanguageCommand_def)
  then show ?thesis
    unfolding nlu_try_parsed [OF assms(3,4) False, of rawText]
      validConceptualCommands_def validSnapshotActions_def ask_ai_result_def
    by (rule if_result)
qed

lemma sample_lower:
  "toLowerCase ''Bogus'' = ''bogus''" "toLowerCase ''DeepThought'' = ''deepthought''"
  "toLowerCase ''jailbreak_protocol'' = ''jailbreak_protocol''"
  by (simp_all add: toLowerCase_def toLowerCase_char_def upper_case_letters_def
      lower_case_letters_def)

theorem allow_list_check_result_witness:
  "analyzeNaturalLanguageCommand (active_env (\<lambda>n. SdkResponse None))
     (SdkResponse (Some bogus_snapshot_text)) ''snapshot please''
   = Inr (JObj [(''intent'', JStr ''ask_ai''),
                (''parameters'', JObj [(''query'', JStr ''snapshot please'')]),
                (''nuance'', JStr ''general''),
                (''commandType'', JStr ''ai_generate'')])
   \<and> analyzeNaturalLanguageCommand (active_env (\<lambda>n. SdkResponse None))
     (SdkResponse (Some deep_thought_text)) ''run deep thought''
   = Inr (JObj [(''intent'', JStr ''ask_ai''),
                (''parameters'', JObj [(''query'', JStr ''run deep thought'')]),
                (''nuance'', JStr ''general''),
                (''commandType'', JStr ''ai_generate'')])
   \<and> analyzeNaturalLanguageCommand (active_env (\<lambda>n. SdkResponse None))
     (SdkResponse (Some jailbreak_text)) ''jailbreak_protocol''
   = Inr (JObj [(''intent'', JStr ''trigger_conceptual_backend''),
                (''parameters'', JObj [(''script_name'', JStr ''jailbreak_protocol'')]),
                (''commandType'', JStr ''conceptual'')])
   \<and> analyzeNaturalLanguageCommand (active_env (\<lambda>n. SdkResponse None))
     (SdkResponse (Some numeric_script_text)) ''run script 42''
   = Inr (JObj [(''intent'', JStr ''trigger_conceptual_backend''),
                (''parameters'', JObj [(''script_name'', JNum ''42'')])])"
proof -
  let ?e = "active_env (\<lambda>n. SdkResponse None)"
  have act: "isGeminiActive ?e" "genAI ?e"
    by (simp_all add: active_env_def)
  have parse: "JSON_parse ?e bogus_snapshot_text = Inr bogus_snapshot_answer"
    "JSON_parse ?e deep_thought_text = Inr deep_thought_answer"
    "JSON_parse ?e jailbreak_text = Inr jailbreak_answer"
    "JSON_parse ?e numeric_script_text = Inr numeric_script_answer"
    by (simp_all add: active_env_def sample_parse_texts)
  note gen = generateContent_text(1) [OF sample_texts_nonempty(2)]
    generateContent_text(1) [OF sample_texts_nonempty(3)]
    generateContent_text(1) [OF sample_texts_nonempty(4)]
    generateContent_text(1) [OF sample_texts_nonempty(5)]
  have bogus: "member bogus_snapshot_answer ''intent'' = Some (JStr ''trigger_snapshot_action'')"
    "opt_member (member bogus_snapshot_answer ''parameters'') ''action'' = Some (JStr ''Bogus'')"
    "toLowerCase ''Bogus'' \<notin> set [''take_snapshot'', ''restore_snapshot_list'']"
    by (simp_all add: bogus_snapshot_answer_def sample_lower)
  have deep: "member deep_thought_answer ''intent'' = Some (JStr ''trigger_conceptual_backend'')"
    "opt_member (member deep_thought_answer ''parameters'') ''script_name''
     = Some (JStr ''DeepThought'')"
    "toLowerCase ''DeepThought'' \<notin> set [''foxmeditation'', ''sovereignbrain'', ''autoclean'',
       ''loom_optimize'', ''claudenotes'', ''swarmanalytics'', ''swarmpilot'',
       ''jailbreak_protocol'', ''nlu_status'', ''newidea_init_prompt'', ''refactor_code'']"
    by (simp_all add: deep_thought_answer_def sample_lower)
  have jailbreak: "jailbreak_answer \<noteq> JNull"
    "member jailbreak_answer ''intent'' \<noteq> Some (JStr ''trigger_snapshot_action'')"
    "opt_member (member jailbreak_answer ''parameters'') ''script_name''
     = Some (JStr ''jailbreak_protocol'')"
    "toLowerCase ''jailbreak_protocol'' \<in> set [''foxmeditation'', ''sovereignbrain'',
       ''autoclean'', ''loom_optimize'', ''claudenotes'', ''swarmanalytics'', ''swarmpilot'',
       ''jailbreak_protocol'', ''nlu_status'', ''newidea_init_prompt'', ''refactor_code'']"
    by (simp_all add: jailbreak_answer_def sample_lower)
  have numeric: "numeric_script_answer \<noteq> JNull"
    "member numeric_script_answer ''intent'' \<noteq> Some (JStr ''trigger_snapshot_action'')"
    "opt_member (member numeric_script_answer ''parameters'') ''script_name''
     = Some (JNum ''42'')"
    by (simp_all add: numeric_script_answer_def)
  have 1: "analyzeNaturalLanguageCommand ?e (SdkResponse (Some bogus_snapshot_text))
             ''snapshot please''
           = Inr (JObj [(''intent'', JStr ''ask_ai''),
                        (''parameters'', JObj [(''query'', JStr ''snapshot please'')]),
                        (''nuance'', JStr ''general''),
                        (''commandType'', JStr ''ai_generate'')])"
    using allow_list_check_result [OF act gen(1) parse(1), of "''snapshot please''"] bogus by blast
  have 2: "analyzeNaturalLanguageCommand ?e (SdkResponse (Some deep_thought_text))
             ''run deep thought''
           = Inr (JObj [(''intent'', JStr ''ask_ai''),
                        (''parameters'', JObj [(''query'', JStr ''run deep thought'')]),
                        (''nuance'', JStr ''general''),
                        (''commandType'', JStr ''ai_generate'')])"
    using allow_list_check_result [OF act gen(2) parse(2), of "''run deep thought''"] deep by blast
  have 3: "analyzeNaturalLanguageCommand ?e (SdkResponse (Some jailbreak_text))
             ''jailbreak_protocol'' = Inr jailbreak_answer"
    using allow_list_check_result [OF act gen(3) parse(3), of "''jailbreak_protocol''"] jailbreak by force
  have 4: "analyzeNaturalLanguageCommand ?e (SdkResponse (Some numeric_script_text))
             ''run script 42'' = Inr numeric_script_answer"
    using allow_list_check_result [OF act gen(4) parse(4), of "''run script 42''"] numeric by force
  show ?thesis
    using 1 2 3 4 by (simp add: jailbreak_answer_def numeric_script_answer_def)
qed

text \<open>
  C3, as stated, fails: with the API inactive the classifier returns the intent
  \<open>System Error\<close>, which is neither in the set of supported intents nor \<open>ask_ai\<close>.
\<close>

theorem inactive_api_intent_not_supported:
  "analyzeNaturalLanguageCommand
     ((active_env (\<lambda>n. SdkResponse None))\<lparr>isGeminiActive := False\<rparr>)
     (SdkResponse None) ''clear''
   = Inr (JObj [(''intent'', JStr ''System Error''),
                (''parameters'',
                   JObj [(''message'', JStr ''Gemini API is inactive. NLU unavailable.'')]),
                (''commandType'', JStr ''unknown'')])
   \<and> \<not> intent_supported
         (JObj [(''intent'', JStr ''System Error''),
                (''parameters'',
                   JObj [(''message'', JStr ''Gemini API is inactive. NLU unavailable.'')]),
                (''commandType'', JStr ''unknown'')])"
  by (simp add: analyzeNaturalLanguageCommand_def active_env_def system_error_result_def
      intent_supported_def supported_intents_def)

lemma nlu_try_cases:
  "nlu_try e r c = Inr v \<Longrightarrow>
     v = ask_ai_result c
     \<or> (\<exists>t. generateContent r = Inr t \<and> JSON_parse e t = Inr v \<and> v \<noteq> JNull)"
  by (simp add: nlu_try_def Let_def split: sum.splits if_splits)

lemma ask_ai_supported:
  "intent_supported (ask_ai_result c)" "intent_supported (nlu_failed_result c error)"
  by (simp_all add: intent_supported_def ask_ai_result_def nlu_failed_result_def
      supported_intents_def)

text \<open>
  C3, amended. The classifier always returns a result. With the API inactive its intent
  is \<open>System Error\<close>. With the API active the result has intent \<open>ask_ai\<close> or is the parsed
  output of the model, returned as it is: the intent of the model's output is not checked
  against any set, so the returned intent is a supported one whenever the intent of the
  parsed output is.
\<close>

theorem classifier_result_intent:
  "\<exists>v. analyzeNaturalLanguageCommand e r c = Inr v \<and>
     (if \<not> isGeminiActive e \<or> \<not> genAI e
      then member v ''intent'' = Some (JStr ''System Error'')
      else (member v ''intent'' = Some (JStr ''ask_ai'')
            \<or> (\<exists>t. generateContent r = Inr t \<and> JSON_parse e t = Inr v))
           \<and> ((\<forall>t p. generateContent r = Inr t \<and> JSON_parse e t = Inr p \<and> p \<noteq> JNull
                       \<longrightarrow> intent_supported p)
                \<longrightarrow> intent_supported v))"
proof (cases "\<not> isGeminiActive e \<or> \<not> genAI e")
  case True
  then show ?thesis
    by (simp add: analyzeNaturalLanguageCommand_def system_error_result_def)
next
  case False
  show ?thesis
  proof (cases "nlu_try e r c")
    case (Inl error)
    then show ?thesis using False ask_ai_supported(2) [of c error]
      by (simp add: analyzeNaturalLanguageCommand_def) (simp add: nlu_failed_result_def)
  next
    case (Inr v)
    from nlu_try_cases [OF Inr]
    have "(member v ''intent'' = Some (JStr ''ask_ai'')
            \<or> (\<exists>t. generateContent r = Inr t \<and> JSON_parse e t = Inr v))
           \<and> ((\<forall>t p. generateContent r = Inr t \<and> JSON_parse e t = Inr p \<and> p \<noteq> JNull
                       \<longrightarrow> intent_supported p)
                \<longrightarrow> intent_supported v)"
    proof
      assume "v = ask_ai_result c"
      then show ?thesis using ask_ai_supported(1) [of c] by (simp add: ask_ai_result_def)
    next
      assume "\<exists>t. generateContent r = Inr t \<and> JSON_parse e t = Inr v \<and> v \<noteq> JNull"
      then show ?thesis by blast
    qed
    then show ?thesis using False Inr
      by (simp add: analyzeNaturalLanguageCommand_def)
  qed
qed

theorem classifier_result_intent_witness:
  "(\<exists>v. analyzeNaturalLanguageCommand (active_env (\<lambda>n. SdkResponse None))
          (SdkResponse (Some clear_text)) ''wipe the screen'' = Inr v
        \<and> intent_supported v)
   \<and> (\<exists>v. analyzeNaturalLanguageCommand
          ((active_env (\<lambda>n. SdkResponse None))\<lparr>genAI := False\<rparr>)
          (SdkResponse None) ''wipe the screen'' = Inr v
        \<and> member v ''intent'' = Some (JStr ''System Error''))"
proof
  have "intent_supported clear_answer"
    by (simp add: intent_supported_def supported_intents_def clear_answer_def)
  then show "\<exists>v. analyzeNaturalLanguageCommand (active_env (\<lambda>n. SdkResponse None))
          (SdkResponse (Some clear_text)) ''wipe the screen'' = Inr v
        \<and> intent_supported v"
    using classifier_result_intent
            [of "active_env (\<lambda>n. SdkResponse None)" "SdkResponse (Some clear_text)"
                "''wipe the screen''"]
    by (auto simp: active_env_def generateContent_text sample_texts_nonempty sample_parse_texts)
  show "\<exists>v. analyzeNaturalLanguageCommand
          ((active_env (\<lambda>n. SdkResponse None))\<lparr>genAI := False\<rparr>)
          (SdkResponse None) ''wipe the screen'' = Inr v
        \<and> member v ''intent'' = Some (JStr ''System Error'')"
    using classifier_result_intent
            [of "(active_env (\<lambda>n. SdkResponse None))\<lparr>genAI := False\<rparr>"
                "SdkResponse None" "''wipe the screen''"]
    by (simp add: active_env_def)
qed

subsection \<open>Dispatcher\<close>

text \<open>
  C5. When \<open>clarificationNeeded\<close> is set, dispatch appends the clarification message, and
  only it, to the display sink and returns: the resulting state differs from the state
  before in nothing else, so no branch of the \<open>switch\<close> has run, the profile is the same
  and the trace of collaborator calls has not grown. (\<open>m\<close> is the clarification message as
  the template literal prints it.)
\<close>

theorem clarification_short_circuits_dispatch:
  assumes "truthy (member nluResult ''clarificationNeeded'')"
    and "template (member nluResult ''clarificationMessage'') = Inr m"
  shows "dispatch reenter e nluResult rawCommand st =
           Some (None, st\<lparr>terminalOutput := terminalOutput st @
             [\<lparr>id_prefix = ''clarify'', sender = ''SYSTEM'',
               msg_text = ''Clarification needed: ''
                  @ (if truthy (member nluResult ''clarificationMessage'') then m
                     else ''Please provide more details.''),
               isBot = True, msg_type = NluClarification\<rparr>]\<rparr>)"
  using assms
  by (simp add: dispatch_def clarification_text_def addOutput_def system_msg_def)

theorem clarification_short_circuits_dispatch_witness:
  "dispatch (\<lambda>c s. None) (active_env (\<lambda>n. SdkResponse None))
     (JObj [(''intent'', JStr ''switch_profile''),
            (''parameters'', JObj [(''profile_id'', JStr ''bleak'')]),
            (''clarificationNeeded'', JBool True),
            (''clarificationMessage'', JStr ''Which profile?'')])
     ''profile'' initial_terminal
   = Some (None, initial_terminal\<lparr>terminalOutput := terminalOutput initial_terminal @
             [\<lparr>id_prefix = ''clarify'', sender = ''SYSTEM'',
               msg_text = ''Clarification needed: Which profile?'',
               isBot = True, msg_type = NluClarification\<rparr>]\<rparr>)"
  using clarification_short_circuits_dispatch
          [of "JObj [(''intent'', JStr ''switch_profile''),
                     (''parameters'', JObj [(''profile_id'', JStr ''bleak'')]),
                     (''clarificationNeeded'', JBool True),
                     (''clarificationMessage'', JStr ''Which profile?'')]"
              "''Which profile?''" "\<lambda>c s. None" "(active_env (\<lambda>n. SdkResponse None))" "''profile''" initial_terminal]
  by simp

text \<open>
  The two guards on the flag \<open>liveSessionActive\<close>. Past the clarification check,
  \<open>start_live_session\<close> with the flag set appends one error message and changes nothing
  else: the trace of collaborator calls is the same, so the audio session's start was not
  called. \<open>end_live_session\<close> with the flag clear appends one error message and changes
  nothing else: nothing was stopped.
\<close>

lemma live_session_guards:
  assumes "\<not> truthy (member nluResult ''clarificationNeeded'')"
  shows "(member nluResult ''intent'' = Some (JStr ''start_live_session'') \<and> liveSessionActive st
           \<longrightarrow> dispatch reenter e nluResult rawCommand st =
                 Some (None, st\<lparr>terminalOutput := terminalOutput st @
                   [\<lparr>id_prefix = ''err'', sender = ''SYSTEM'',
                     msg_text = ''Error: Live session already active. Use `endlive` to stop.'',
                     isBot = True, msg_type = ErrorMessage\<rparr>]\<rparr>))
       \<and> (member nluResult ''intent'' = Some (JStr ''end_live_session'') \<and> \<not> liveSessionActive st
           \<longrightarrow> dispatch reenter e nluResult rawCommand st =
                 Some (None, st\<lparr>terminalOutput := terminalOutput st @
                   [\<lparr>id_prefix = ''err'', sender = ''SYSTEM'',
                     msg_text = ''Error: No live session active. Use `startlive` to begin.'',
                     isBot = True, msg_type = ErrorMessage\<rparr>]\<rparr>))"
  using assms
  by (simp add: dispatch_def addOutput_def system_msg_def)

lemma live_session_guards_example:
  "dispatch (\<lambda>c s. None) (active_env (\<lambda>n. SdkResponse None))
     (JObj [(''intent'', JStr ''start_live_session''), (''commandType'', JStr ''ai_live'')])
     ''startlive'' (initial_terminal\<lparr>liveSessionActive := True\<rparr>)
   = Some (None, initial_terminal
        \<lparr>liveSessionActive := True,
         terminalOutput := terminalOutput (initial_terminal\<lparr>liveSessionActive := True\<rparr>) @
           [\<lparr>id_prefix = ''err'', sender = ''SYSTEM'',
             msg_text = ''Error: Live session already active. Use `endlive` to stop.'',
             isBot = True, msg_type = ErrorMessage\<rparr>]\<rparr>)
   \<and> dispatch (\<lambda>c s. None) (active_env (\<lambda>n. SdkResponse None))
     (JObj [(''intent'', JStr ''end_live_session''), (''commandType'', JStr ''ai_live'')])
     ''endlive'' (initial_terminal\<lparr>liveSessionActive := False\<rparr>)
   = Some (None, initial_terminal
        \<lparr>liveSessionActive := False,
         terminalOutput := terminalOutput (initial_terminal\<lparr>liveSessionActive := False\<rparr>) @
           [\<lparr>id_prefix = ''err'', sender = ''SYSTEM'',
             msg_text = ''Error: No live session active. Use `startlive` to begin.'',
             isBot = True, msg_type = ErrorMessage\<rparr>]\<rparr>)"
  using live_session_guards
          [of "JObj [(''intent'', JStr ''start_live_session''), (''commandType'', JStr ''ai_live'')]"
              "initial_terminal\<lparr>liveSessionActive := True\<rparr>" "\<lambda>c s. None" "(active_env (\<lambda>n. SdkResponse None))" "''startlive''"]
        live_session_guards
          [of "JObj [(''intent'', JStr ''end_live_session''), (''commandType'', JStr ''ai_live'')]"
              "initial_terminal\<lparr>liveSessionActive := False\<rparr>" "\<lambda>c s. None" "(active_env (\<lambda>n. SdkResponse None))" "''endlive''"]
  by simp

text \<open>
  C6: the guards do not keep the sessions at one. The flag is not the session: when the
  browser refuses the microphone, the \<open>catch\<close> of \<open>startMicrophoneInput\<close> clears
  \<open>liveSessionActive\<close> and leaves the session that \<open>startLiveSession\<close> has just opened as
  it is, still held by \<open>sessionPromiseRef\<close> and never closed. The next \<open>start_live_session\<close>
  finds the flag clear, appends no "already active" error and calls \<open>startLiveSession\<close>
  again: two sessions have been opened and none closed. (\<open>endLiveConversation\<close>, the
  other place that clears the flag, closes the session and empties the ref.)
\<close>

theorem second_start_after_microphone_failure:
  "\<exists>st1 st2.
     dispatch (\<lambda>c s. None) microphone_denied_env start_live_answer ''startlive'' initial_terminal
       = Some (None, st1)
     \<and> \<not> liveSessionActive st1
     \<and> sessionPromiseRef st1 = SessionResolved
     \<and> calls st1 = [StartLiveSession, OpenMicrophone]
     \<and> dispatch (\<lambda>c s. None) microphone_denied_env start_live_answer ''startlive'' st1
       = Some (None, st2)
     \<and> calls st2 = [StartLiveSession, OpenMicrophone, StartLiveSession, OpenMicrophone]
     \<and> map msg_text (terminalOutput st2)
       = [''Error accessing microphone: Permission denied. Please ensure permissions are granted.'',
          ''Live audio conversation started. You can now speak.'',
          ''Error accessing microphone: Permission denied. Please ensure permissions are granted.'',
          ''Live audio conversation started. You can now speak.'']"
  by (simp add: dispatch_def start_live_answer_def microphone_denied_env_def active_env_def
      initial_terminal_def startLiveConversation_def startLiveSession_def
      startMicrophoneInput_def api_inactive_def addOutput_def call_def system_msg_def Let_def)

lemma find_by_key:
  "distinct (map f xs) \<Longrightarrow> p \<in> set xs \<Longrightarrow> find (\<lambda>q. f q = f p) xs = Some p"
  by (induction xs) force+

lemma distinct_profile_ids: "distinct (map profile_ident USER_PROFILES)"
  by (simp add: USER_PROFILES_def)

lemma profile_ids:
  "join '', '' (map profile_ident USER_PROFILES) = ''mike_talbert, bleak, syntax_ai_agent''"
  by (simp add: USER_PROFILES_def)

lemma find_profile_none:
  assumes "\<forall>p \<in> set USER_PROFILES. profileId \<noteq> Some (JStr (profile_ident p))"
  shows "find (\<lambda>p. Some (JStr (profile_ident p)) = profileId) USER_PROFILES = None"
  using assms by (auto simp: find_None_iff)

lemma find_profile_some:
  assumes "p \<in> set USER_PROFILES"
  shows "find (\<lambda>q. Some (JStr (profile_ident q)) = Some (JStr (profile_ident p))) USER_PROFILES
         = Some p"
  using find_by_key [OF distinct_profile_ids assms] by simp

text \<open>
  C8. Past the clarification check, a \<open>switch_profile\<close> whose \<open>profile_id\<close> is the id
  of no entry of \<open>USER_PROFILES\<close> appends one error message that lists the three valid
  ids and changes nothing else, so the current profile stays (\<open>shown\<close> is the
  \<open>profile_id\<close> as the template literal prints it). A \<open>profile_id\<close> that is the id
  of an entry makes that entry the current profile and appends a system message with
  its name.
\<close>

theorem switch_profile_dispatch:
  assumes "\<not> truthy (member nluResult ''clarificationNeeded'')"
    and "member nluResult ''intent'' = Some (JStr ''switch_profile'')"
    and "profileId = opt_member (member nluResult ''parameters'') ''profile_id''"
  shows "((\<forall>p \<in> set USER_PROFILES. profileId \<noteq> Some (JStr (profile_ident p)))
            \<and> template profileId = Inr shown
          \<longrightarrow> dispatch reenter e nluResult rawCommand st =
                Some (None, st\<lparr>terminalOutput := terminalOutput st @
                  [\<lparr>id_prefix = ''profile-err'', sender = ''SYSTEM'',
                    msg_text = ''Error: Profile '' @ [CHR 0x27] @ shown @ [CHR 0x27]
                       @ '' not found. Available profiles: mike_talbert, bleak, syntax_ai_agent.'',
                    isBot = True, msg_type = ErrorMessage\<rparr>]\<rparr>))
       \<and> (\<forall>p \<in> set USER_PROFILES. profileId = Some (JStr (profile_ident p))
          \<longrightarrow> (\<exists>st'. dispatch reenter e nluResult rawCommand st = Some (None, st')
                \<and> currentUserProfile st' = p
                \<and> terminalOutput st' = terminalOutput st @
                  [\<lparr>id_prefix = ''profile-switch'', sender = ''SYSTEM'',
                    msg_text = ''User profile switched to: '' @ profile_name p @ '' (''
                       @ avatar p @ '').'',
                    isBot = True, msg_type = SystemMessage\<rparr>]))"
proof (intro conjI impI ballI)
  assume a: "(\<forall>p \<in> set USER_PROFILES. profileId \<noteq> Some (JStr (profile_ident p)))
            \<and> template profileId = Inr shown"
  have "switch_profile e profileId st =
          (None, st\<lparr>terminalOutput := terminalOutput st @
                  [\<lparr>id_prefix = ''profile-err'', sender = ''SYSTEM'',
                    msg_text = ''Error: Profile '' @ [CHR 0x27] @ shown @ [CHR 0x27]
                       @ '' not found. Available profiles: mike_talbert, bleak, syntax_ai_agent.'',
                    isBot = True, msg_type = ErrorMessage\<rparr>]\<rparr>)"
    using a find_profile_none [of profileId]
    by (simp add: switch_profile_def addOutput_def system_msg_def apostrophe_def profile_ids)
  then show "dispatch reenter e nluResult rawCommand st =
                Some (None, st\<lparr>terminalOutput := terminalOutput st @
                  [\<lparr>id_prefix = ''profile-err'', sender = ''SYSTEM'',
                    msg_text = ''Error: Profile '' @ [CHR 0x27] @ shown @ [CHR 0x27]
                       @ '' not found. Available profiles: mike_talbert, bleak, syntax_ai_agent.'',
                    isBot = True, msg_type = ErrorMessage\<rparr>]\<rparr>)"
    using assms by (simp add: dispatch_def)
next
  fix p assume p: "p \<in> set USER_PROFILES" and eq: "profileId = Some (JStr (profile_ident p))"
  have d: "dispatch reenter e nluResult rawCommand st = Some (switch_profile e profileId st)"
    using assms by (simp add: dispatch_def)
  have s: "switch_profile e profileId st =
          (None, showInLookingGlass e ''User Profile: Active''
             (addOutput (system_msg ''profile-switch''
                (''User profile switched to: '' @ profile_name p @ '' (''
                 @ avatar p @ '').'') SystemMessage)
                (st\<lparr>currentUserProfile := p\<rparr>)))"
    using find_profile_some [OF p] eq by (simp add: switch_profile_def)
  show "\<exists>st'. dispatch reenter e nluResult rawCommand st = Some (None, st')
                \<and> currentUserProfile st' = p
                \<and> terminalOutput st' = terminalOutput st @
                  [\<lparr>id_prefix = ''profile-switch'', sender = ''SYSTEM'',
                    msg_text = ''User profile switched to: '' @ profile_name p @ '' (''
                       @ avatar p @ '').'',
                    isBot = True, msg_type = SystemMessage\<rparr>]"
    unfolding d s
    by (simp add: showInLookingGlass_def addOutput_def system_msg_def call_def)
qed

theorem switch_profile_dispatch_witness:
  "dispatch (\<lambda>c s. None) (active_env (\<lambda>n. SdkResponse None))
     (JObj [(''intent'', JStr ''switch_profile''),
            (''parameters'', JObj [(''profile_id'', JStr ''unknown_id'')])])
     ''profile unknown_id'' initial_terminal
   = Some (None, initial_terminal\<lparr>terminalOutput := terminalOutput initial_terminal @
        [\<lparr>id_prefix = ''profile-err'', sender = ''SYSTEM'',
          msg_text = ''Error: Profile 'unknown_id' not found. Available profiles: mike_talbert, bleak, syntax_ai_agent.'',
          isBot = True, msg_type = ErrorMessage\<rparr>]\<rparr>)
   \<and> (\<exists>st'. dispatch (\<lambda>c s. None) (active_env (\<lambda>n. SdkResponse None))
              (JObj [(''intent'', JStr ''switch_profile''),
                     (''parameters'', JObj [(''profile_id'', JStr ''bleak'')])])
              ''profile bleak'' initial_terminal = Some (None, st')
          \<and> currentUserProfile st' = USER_PROFILES ! 1
          \<and> terminalOutput st' = terminalOutput initial_terminal @
               [\<lparr>id_prefix = ''profile-switch'', sender = ''SYSTEM'',
                 msg_text = ''User profile switched to: Bleak Narratives (''
                    @ [CHR 0xF0, CHR 0x9F, CHR 0xA6, CHR 0x8A] @ '').'',
                 isBot = True, msg_type = SystemMessage\<rparr>])"
proof -
  have ids: "map profile_ident USER_PROFILES = [''mike_talbert'', ''bleak'', ''syntax_ai_agent'']"
    by (simp add: USER_PROFILES_def)
  have mem: "USER_PROFILES ! 1 \<in> set USER_PROFILES"
    by (simp add: USER_PROFILES_def)
  have bleak: "profile_ident (USER_PROFILES ! 1) = ''bleak''"
    "profile_name (USER_PROFILES ! 1) = ''Bleak Narratives''"
    "avatar (USER_PROFILES ! 1) = [CHR 0xF0, CHR 0x9F, CHR 0xA6, CHR 0x8A]"
    by (simp_all add: USER_PROFILES_def)
  have no: "\<forall>p \<in> set USER_PROFILES. Some (JStr ''unknown_id'') \<noteq> Some (JStr (profile_ident p))"
  proof
    fix p assume "p \<in> set USER_PROFILES"
    then have "profile_ident p \<in> set (map profile_ident USER_PROFILES)" by simp
    then show "Some (JStr ''unknown_id'') \<noteq> Some (JStr (profile_ident p))"
      unfolding ids by auto
  qed
  have a: "dispatch (\<lambda>c s. None) (active_env (\<lambda>n. SdkResponse None))
     (JObj [(''intent'', JStr ''switch_profile''),
            (''parameters'', JObj [(''profile_id'', JStr ''unknown_id'')])])
     ''profile unknown_id'' initial_terminal
   = Some (None, initial_terminal\<lparr>terminalOutput := terminalOutput initial_terminal @
        [\<lparr>id_prefix = ''profile-err'', sender = ''SYSTEM'',
          msg_text = ''Error: Profile 'unknown_id' not found. Available profiles: mike_talbert, bleak, syntax_ai_agent.'',
          isBot = True, msg_type = ErrorMessage\<rparr>]\<rparr>)"
    using switch_profile_dispatch [of "JObj [(''intent'', JStr ''switch_profile''),
                        (''parameters'', JObj [(''profile_id'', JStr ''unknown_id'')])]"
                 "Some (JStr ''unknown_id'')" "''unknown_id''"
                 "\<lambda>c s. None" "active_env (\<lambda>n. SdkResponse None)"
                 "''profile unknown_id''" initial_terminal, THEN conjunct1]
          no
    by simp
  have b: "\<exists>st'. dispatch (\<lambda>c s. None) (active_env (\<lambda>n. SdkResponse None))
              (JObj [(''intent'', JStr ''switch_profile''),
                     (''parameters'', JObj [(''profile_id'', JStr ''bleak'')])])
              ''profile bleak'' initial_terminal = Some (None, st')
          \<and> currentUserProfile st' = USER_PROFILES ! 1
          \<and> terminalOutput st' = terminalOutput initial_terminal @
               [\<lparr>id_prefix = ''profile-switch'', sender = ''SYSTEM'',
                 msg_text = ''User profile switched to: '' @ profile_name (USER_PROFILES ! 1) @ '' (''
                       @ avatar (USER_PROFILES ! 1) @ '').'',
                 isBot = True, msg_type = SystemMessage\<rparr>]"
    using switch_profile_dispatch [of "JObj [(''intent'', JStr ''switch_profile''),
                        (''parameters'', JObj [(''profile_id'', JStr ''bleak'')])]"
                 "Some (JStr ''bleak'')" "''bleak''"
                 "\<lambda>c s. None" "active_env (\<lambda>n. SdkResponse None)"
                 "''profile bleak''" initial_terminal, THEN conjunct2, THEN bspec, OF _ _ _ mem]
          bleak(1)
    by simp
  show ?thesis
    using a b unfolding bleak by simp
qed


subsection \<open>Base64 helpers\<close>

lemma map_of_zip_index:
  "distinct xs \<Longrightarrow> n < length xs \<Longrightarrow> map_of (zip xs [0..<length xs]) (xs ! n) = Some n"
proof -
  assume d: "distinct xs" and n: "n < length xs"
  have "map_of (zip xs [0..<length xs]) (xs ! n) = Some ([0..<length xs] ! n)"
    using d n by (intro map_of_zip_nth) auto
  then show ?thesis using n by simp
qed

lemma distinct_alphabet: "distinct base64_alphabet"
  by (simp add: base64_alphabet_def)

lemma length_alphabet: "length base64_alphabet = 64"
  by (simp add: base64_alphabet_def)

lemma base64_index_char: "n < 64 \<Longrightarrow> base64_index (base64_char n) = Some n"
  using map_of_zip_index [OF distinct_alphabet, of n]
  by (simp add: base64_index_def base64_char_def length_alphabet)

lemma base64_char_in_alphabet: "n < 64 \<Longrightarrow> base64_char n \<in> set base64_alphabet"
  by (simp add: base64_char_def length_alphabet)

lemma alphabet_no_padding: "CHR ''='' \<notin> set base64_alphabet"
  by (simp add: base64_alphabet_def)

lemma alphabet_no_whitespace: "c \<in> set base64_alphabet \<Longrightarrow> \<not> is_ascii_whitespace c"
  by (auto simp: base64_alphabet_def is_ascii_whitespace_def)

lemma sextets_bound: "\<forall>x \<in> set xs. x < 256 \<Longrightarrow> \<forall>s \<in> set (sextets xs). s < 64"
proof (induction xs rule: sextets.induct)
  case 1 then show ?case by simp
next
  case (2 a) then show ?case by (auto simp: div_less_iff_less_mult)
next
  case (3 a b)
  then have "a < 256" "b < 256" by auto
  then have "a div 4 < 64" "a mod 4 * 16 + b div 16 < 64" "b mod 16 * 4 < 64" by arith+
  then show ?case by simp
next
  case (4 a b c rest)
  then have "a < 256" "b < 256" "c < 256" by auto
  then have "a div 4 < 64" "a mod 4 * 16 + b div 16 < 64" "b mod 16 * 4 + c div 64 < 64" "c mod 64 < 64"
    by arith+
  with 4 show ?case by simp
qed

lemma those_indices_chars:
  "\<forall>s \<in> set ss. s < 64 \<Longrightarrow> those_indices (map base64_char ss) = Some ss"
  by (induction ss) (simp_all add: base64_index_char)

lemma high_nibble: "(b::nat) < 256 \<Longrightarrow> b div 16 < 16"
  by arith

lemma high_pair: "(c::nat) < 256 \<Longrightarrow> c div 64 < 4"
  by arith

lemma octets_sextets: "\<forall>x \<in> set xs. x < 256 \<Longrightarrow> octets (sextets xs) = xs"
proof (induction xs rule: sextets.induct)
  case 1 then show ?case by simp
next
  case (2 a) then show ?case by simp
next
  case (3 a b)
  then have "b div 16 < 16" by (simp add: high_nibble)
  then show ?case by simp
next
  case (4 a b c rest)
  then have "b div 16 < 16" "c div 64 < 4" by (simp_all add: high_nibble high_pair)
  with 4 show ?case by simp
qed


lemma length_sextets:
  "length (sextets xs) =
     4 * (length xs div 3) + (if length xs mod 3 = 0 then 0 else length xs mod 3 + 1)"
  by (induction xs rule: sextets.induct) simp_all

lemma strip_padding_none:
  assumes "length u mod 4 = 0" and "u = [] \<or> last u \<noteq> CHR ''=''"
  shows "strip_padding u = u"
proof (cases u rule: rev_cases)
  case Nil
  then show ?thesis by (simp add: strip_padding_def)
next
  case (snoc ys l)
  with assms(2) have "l \<noteq> CHR ''=''" by simp
  with snoc show ?thesis
    by (simp add: strip_padding_def split: list.split)
qed

lemma strip_padding_two:
  assumes "length u mod 4 = 2"
  shows "strip_padding (u @ ''=='') = u"
proof -
  have "length (u @ ''=='') mod 4 = 0" using assms by (simp add: mod_Suc)
  then show ?thesis by (simp add: strip_padding_def)
qed

lemma strip_padding_one:
  assumes "length u mod 4 = 3" and "u \<noteq> []" and "last u \<noteq> CHR ''=''"
  shows "strip_padding (u @ ''='') = u"
proof -
  have len: "length (u @ ''='') mod 4 = 0" using assms(1) by (simp add: mod_Suc)
  obtain ys l where u: "u = ys @ [l]" using assms(2) by (cases u rule: rev_cases) auto
  with assms(3) have "l \<noteq> CHR ''=''" by simp
  with len u show ?thesis by (simp add: strip_padding_def)
qed

lemma body_in_alphabet:
  assumes "\<forall>x \<in> set xs. x < 256"
  shows "set (map base64_char (sextets xs)) \<subseteq> set base64_alphabet"
  using sextets_bound [OF assms] by (auto simp: base64_char_in_alphabet)

lemma sextets_empty: "sextets xs = [] \<longleftrightarrow> xs = []"
  by (cases xs rule: sextets.cases) simp_all

lemma strip_padding_encoded:
  assumes "\<forall>x \<in> set xs. x < 256"
  shows "strip_padding (map base64_char (sextets xs) @ padding xs) = map base64_char (sextets xs)"
proof -
  let ?u = "map base64_char (sextets xs)"
  have last: "?u = [] \<or> last ?u \<noteq> CHR ''=''"
  proof (cases "?u = []")
    case False
    then have "last ?u \<in> set base64_alphabet"
      using body_in_alphabet [OF assms] last_in_set by blast
    then show ?thesis using alphabet_no_padding by auto
  qed simp
  have len: "length ?u = 4 * (length xs div 3) + (if length xs mod 3 = 0 then 0 else length xs mod 3 + 1)"
    by (simp add: length_sextets)
  have "length xs mod 3 = 0 \<or> length xs mod 3 = 1 \<or> length xs mod 3 = 2" by arith
  then show ?thesis
  proof (elim disjE)
    assume m: "length xs mod 3 = 0"
    then have "padding xs = []" by (simp add: padding_def)
    moreover have "length ?u mod 4 = 0" using m len by simp
    ultimately show ?thesis using strip_padding_none [OF _ last] by simp
  next
    assume m: "length xs mod 3 = 1"
    then have "padding xs = ''==''" by (simp add: padding_def numeral_2_eq_2)
    moreover have "length ?u mod 4 = 2" using m len by (simp add: mod_Suc)
    ultimately show ?thesis using strip_padding_two by simp
  next
    assume m: "length xs mod 3 = 2"
    then have "padding xs = ''=''" by (simp add: padding_def)
    moreover have l3: "length ?u mod 4 = 3" using m len by (simp add: mod_Suc)
    moreover have "?u \<noteq> []" using l3 by auto
    ultimately show ?thesis using strip_padding_one last by simp
  qed
qed

lemma no_whitespace_encoded:
  assumes "\<forall>x \<in> set xs. x < 256"
  shows "filter (\<lambda>c. \<not> is_ascii_whitespace c) (map base64_char (sextets xs) @ padding xs)
         = map base64_char (sextets xs) @ padding xs"
proof -
  have "\<forall>c \<in> set (map base64_char (sextets xs)). \<not> is_ascii_whitespace c"
    using body_in_alphabet [OF assms] alphabet_no_whitespace by blast
  moreover have "\<forall>c \<in> set (padding xs). \<not> is_ascii_whitespace c"
    by (simp add: padding_def is_ascii_whitespace_def)
  ultimately show ?thesis by (simp add: filter_id_conv)
qed

lemma length_body_mod:
  "length (map base64_char (sextets xs)) mod 4 \<noteq> 1"
proof -
  have "length xs mod 3 = 0 \<or> length xs mod 3 = 1 \<or> length xs mod 3 = 2" by arith
  then show ?thesis by (auto simp: length_sextets mod_Suc)
qed

lemma atob_btoa:
  assumes "\<forall>x \<in> set xs. x < 256"
  shows "btoa xs = Inr (map base64_char (sextets xs) @ padding xs)"
    and "atob (map base64_char (sextets xs) @ padding xs) = Inr xs"
proof -
  show "btoa xs = Inr (map base64_char (sextets xs) @ padding xs)"
    using assms by (auto simp: btoa_def)
  show "atob (map base64_char (sextets xs) @ padding xs) = Inr xs"
    unfolding atob_def no_whitespace_encoded [OF assms] strip_padding_encoded [OF assms] Let_def
    using length_body_mod [of xs] those_indices_chars [OF sextets_bound [OF assms]]
      octets_sextets [OF assms]
    by simp
qed

lemma encode_loop_eq: "encode_loop bytes binary = binary @ map unat bytes"
  by (induction bytes arbitrary: binary) simp_all

lemma decode_loop_eq: "decode_loop binaryString bytes = bytes @ map of_nat binaryString"
  by (induction binaryString arbitrary: bytes) simp_all

lemma bytes_bound: "\<forall>x \<in> set (map unat (bytes :: 8 word list)). x < 256"
proof
  fix x assume "x \<in> set (map unat bytes)"
  then obtain w :: "8 word" where "x = unat w" by auto
  then show "x < 256" using unsigned_less [of w, where ?'a = nat] by simp
qed

text \<open>
  C9. For every byte array \<open>b\<close>, \<open>encode b\<close> returns a string and \<open>decode\<close> of that string
  returns \<open>b\<close>; and for every string \<open>s\<close> that \<open>encode\<close> returns for some byte array,
  \<open>decode s\<close> returns a byte array that \<open>encode\<close> maps back to \<open>s\<close>.
\<close>

theorem encode_decode_inverse:
  "(\<exists>s. encode b = Inr s \<and> decode s = Inr b)
   \<and> (\<forall>s. (\<exists>b0. encode b0 = Inr s) \<longrightarrow> (\<exists>b'. decode s = Inr b' \<and> encode b' = Inr s))"
proof -
  have rt: "\<exists>s. encode b = Inr s \<and> decode s = Inr b" for b
    using atob_btoa [OF bytes_bound [of b]]
    by (simp add: encode_def decode_def encode_loop_eq decode_loop_eq map_idI)
  show ?thesis
  proof (intro conjI allI impI)
    show "\<exists>s. encode b = Inr s \<and> decode s = Inr b" by (rule rt)
  next
    fix s assume "\<exists>b0. encode b0 = Inr s"
    then obtain b0 where "encode b0 = Inr s" by blast
    with rt [of b0] show "\<exists>b'. decode s = Inr b' \<and> encode b' = Inr s" by auto
  qed
qed

theorem encode_decode_inverse_witness:
  "(\<exists>s. encode [0x4D, 0x61] = Inr s \<and> decode s = Inr [0x4D, 0x61])
   \<and> (\<exists>b'. decode ''TWE='' = Inr b' \<and> encode b' = Inr ''TWE='')"
proof -
  have e: "encode [0x4D, 0x61] = Inr ''TWE=''"
    by code_simp
  then have "\<exists>b0. encode b0 = Inr ''TWE=''" by blast
  then show ?thesis
    using encode_decode_inverse [of "[0x4D, 0x61]"] by blast
qed


subsection \<open>Snapshot store\<close>










subsection \<open>Re-entrant dispatch\<close>

lemma jailbreak_classified:
  "analyzeNaturalLanguageCommand jailbreak_env (sdk jailbreak_env n) raw = Inr jailbreak_answer"
  by (simp add: analyzeNaturalLanguageCommand_def nlu_try_def jailbreak_env_def active_env_def
      generateContent_text sample_texts_nonempty sample_parse_texts)
     (simp add: jailbreak_answer_def validConceptualCommands_def toLowerCase_def
      toLowerCase_char_def upper_case_letters_def lower_case_letters_def)

lemma jailbreak_text: "\<exists>t. nlu_result_text jailbreak_env jailbreak_answer = Inr t"
  by (simp add: nlu_result_text_def jailbreak_answer_def)

lemma jailbreak_dispatch:
  "dispatch f jailbreak_env jailbreak_answer raw st
     = unawaited (f (Some (JStr ''jailbreak_protocol'')) st) st"
  by (simp add: dispatch_def jailbreak_answer_def conceptual_backend_def)

lemma jailbreak_submit_try:
  assumes "\<forall>st'. f (Some (JStr ''jailbreak_protocol'')) st' = None"
  shows "submit_try f jailbreak_env raw st = None"
proof -
  obtain t where t: "nlu_result_text jailbreak_env jailbreak_answer = Inr t"
    using jailbreak_text by blast
  show ?thesis
    using assms
    by (simp add: submit_try_def classify_def jailbreak_classified t jailbreak_dispatch
        unawaited_def Let_def)
qed

lemma jailbreak_trim: "trim ''jailbreak_protocol'' = ''jailbreak_protocol''"
  by (simp add: trim_def is_white_space_def)

lemma jailbreak_reenters_forever:
  "handleCommandSubmit depth jailbreak_env (Some (JStr ''jailbreak_protocol'')) st = None"
proof (induction depth arbitrary: st)
  case 0
  show ?case by simp
next
  case (Suc depth)
  then have "\<forall>st'. handleCommandSubmit depth jailbreak_env (Some (JStr ''jailbreak_protocol'')) st' = None"
    by simp
  from jailbreak_submit_try [of "handleCommandSubmit depth jailbreak_env", OF this] show ?case
    by (simp add: jailbreak_trim Let_def)
qed

text \<open>
  C4: the cycle does not run to completion on the command \<open>jailbreak_protocol\<close>. When the
  model answers every request with the classification its prompt prescribes for that
  command, every call of \<open>handleCommandSubmit\<close> starts another one with the same command,
  each with a new completion request: no number of calls brings the cycle to its end. The
  re-entering branches are commented "Re-process as direct command", "for existing logic"
  and "to re-trigger sequence logic", but this \<open>handleCommandSubmit\<close> has no direct
  handling of the command for the second call to reach; the earlier
  \<open>views/TerminalView.tsx\<close> has it.
\<close>

theorem jailbreak_protocol_never_completes:
  "\<not> (\<exists>depth r. handleCommandSubmit depth jailbreak_env (Some (JStr ''jailbreak_protocol''))
                    initial_terminal = Some r)"
  by (simp add: jailbreak_reenters_forever)

end
